theory Spec2Isabelle
  imports Complex_Main "HOL-Library.Multiset" "HOL-Library.Sublist"
begin

section \<open>Numbers\<close>

text \<open>
  A float64: a finite value (a rational; \<open>Finite 0\<close> is \<^verbatim>\<open>0.0\<close>), \<^verbatim>\<open>-0.0\<close>, the two
  infinities and \<^verbatim>\<open>nan\<close>.
\<close>

datatype npfloat = Finite rat | NegZero | PosInf | NegInf | NaN

text \<open>
  The rounding of float64 arithmetic: it takes the exact, non-zero result of an operation
  to the float64 that stands for it, a finite value, a zero (underflow) or an infinity
  (overflow). It is a parameter of the model, and so is the mean of a column, which pandas
  computes by a float64 summation of its own. A theorem below that names \<open>rnd\<close> or
  \<open>mu\<close> holds for every such function; the one property of the rounding that a theorem
  needs is its hypothesis \<open>rounding_ok\<close>.
\<close>

type_synonym rounding = "rat \<Rightarrow> npfloat"

type_synonym series_mean = "npfloat list \<Rightarrow> npfloat"

fun is_zero :: "npfloat \<Rightarrow> bool" where
  "is_zero (Finite q) = (q = 0)"
| "is_zero NegZero = True"
| "is_zero _ = False"

fun is_inf :: "npfloat \<Rightarrow> bool" where
  "is_inf PosInf = True"
| "is_inf NegInf = True"
| "is_inf _ = False"

fun signbit :: "npfloat \<Rightarrow> bool" where
  "signbit (Finite q) = (q < 0)"
| "signbit NegZero = True"
| "signbit NegInf = True"
| "signbit _ = False"

fun rat_of :: "npfloat \<Rightarrow> rat" where
  "rat_of (Finite q) = q"
| "rat_of _ = 0"

fun np_negative :: "npfloat \<Rightarrow> npfloat" where
  "np_negative (Finite q) = (if q = 0 then NegZero else Finite (- q))"
| "np_negative NegZero = Finite 0"
| "np_negative PosInf = NegInf"
| "np_negative NegInf = PosInf"
| "np_negative NaN = NaN"

definition signed_zero :: "bool \<Rightarrow> npfloat" where
  "signed_zero negative = (if negative then NegZero else Finite 0)"

definition signed_inf :: "bool \<Rightarrow> npfloat" where
  "signed_inf negative = (if negative then NegInf else PosInf)"

text \<open>
  The place of a float on the number line, \<^verbatim>\<open>-0.0\<close> and \<^verbatim>\<open>0.0\<close> at the same place;
  \<^verbatim>\<open>nan\<close> has none.
\<close>

fun place :: "npfloat \<Rightarrow> (nat \<times> rat) option" where
  "place NegInf = Some (0, 0)"
| "place (Finite q) = Some (1, q)"
| "place NegZero = Some (1, 0)"
| "place PosInf = Some (2, 0)"
| "place NaN = None"

text \<open>The comparison \<^verbatim>\<open>x < y\<close> of two floats; every comparison with \<^verbatim>\<open>nan\<close> is false.\<close>

definition np_less :: "npfloat \<Rightarrow> npfloat \<Rightarrow> bool" where
  "np_less x y =
     (case (place x, place y) of
        (Some (i, a), Some (j, b)) \<Rightarrow> i < j \<or> (i = j \<and> a < b)
      | _ \<Rightarrow> False)"

text \<open>
  \<^verbatim>\<open>x - y\<close> and \<^verbatim>\<open>x / y\<close> on float64 cells, as numpy computes them element by element:
  nothing raises, a zero divisor gives an infinity or \<^verbatim>\<open>nan\<close>. Only a result that is
  neither special nor exactly zero is rounded.
\<close>

definition np_subtract :: "rounding \<Rightarrow> npfloat \<Rightarrow> npfloat \<Rightarrow> npfloat" where
  "np_subtract rnd x y =
     (if x = NaN \<or> y = NaN then NaN
      else if is_inf x \<or> is_inf y then
        (if x = y then NaN else if is_inf x then x else np_negative y)
      else if is_zero x \<and> is_zero y then (if x = NegZero \<and> y \<noteq> NegZero then NegZero else Finite 0)
      else if is_zero y then x
      else if is_zero x then np_negative y
      else if rat_of x = rat_of y then Finite 0
      else rnd (rat_of x - rat_of y))"

definition np_divide :: "rounding \<Rightarrow> npfloat \<Rightarrow> npfloat \<Rightarrow> npfloat" where
  "np_divide rnd x y =
     (if x = NaN \<or> y = NaN then NaN
      else if is_inf x then (if is_inf y then NaN else signed_inf (signbit x \<noteq> signbit y))
      else if is_inf y then signed_zero (signbit x \<noteq> signbit y)
      else if is_zero y then (if is_zero x then NaN else signed_inf (signbit x \<noteq> signbit y))
      else if is_zero x then signed_zero (signbit x \<noteq> signbit y)
      else rnd (rat_of x / rat_of y))"

text \<open>
  A number of Python: an int of any size or a float. The JSON parser gives an int for a
  literal without fraction and exponent, a float otherwise.
\<close>

datatype number = PyInt int | PyFloat npfloat

section \<open>Values and errors\<close>

text \<open>
  The program works on parsed JSON (the result of \<^verbatim>\<open>response.json()\<close>): Python
  \<^verbatim>\<open>None\<close> is \<open>JNull\<close>, a dict is \<open>JObj\<close> (an association list, read with
  \<open>dict_get\<close>), a list is \<open>JArr\<close>.
\<close>

datatype json =
    JNull
  | JBool bool
  | JNum number
  | JStr string
  | JArr "json list"
  | JObj "(string \<times> json) list"

datatype error =
    KeyError
  | TypeError
  | AttributeError
  | ZeroDivisionError
  | OverflowError
  | ConnectionError
  | JSONDecodeError
  | Unsupported

section \<open>Ranking: \<^verbatim>\<open>rank_tokens\<close>\<close>

text \<open>
  One dict returned by \<^verbatim>\<open>calculate_metrics\<close>, one row of the data frame. The four
  metric columns are float64 columns.
\<close>

record metrics =
  token :: json
  pvr :: npfloat
  rvol :: npfloat
  momentum :: npfloat
  vsi :: npfloat

text \<open>A row after the columns of lines 118 to 128 have been added.\<close>

record scored = metrics +
  pvrd :: npfloat
  pvr_score :: int
  rvol_score :: int
  momentum_score :: int
  pvrd_score :: int
  vsi_score :: int
  final_score :: int

text \<open>
  Lines 118 to 128 for one row, given the whole frame \<open>df\<close>: the column \<^verbatim>\<open>pvrd\<close>
  first, then the five scores, then their sum. \<open>mu\<close> is \<^verbatim>\<open>Series.mean()\<close>.
\<close>

definition score_row :: "series_mean \<Rightarrow> rounding \<Rightarrow> metrics list \<Rightarrow> metrics \<Rightarrow> scored" where
  "score_row mu rnd df m =
     (let d = np_divide rnd (np_subtract rnd (pvr m) (mu (map pvr df))) (mu (map pvr df));
          s1 = (if np_less (pvr m) (mu (map pvr df)) then 1 else - 1);
          s2 = (if np_less (mu (map rvol df)) (rvol m) then 1 else - 1);
          s3 = (if np_less (momentum m) (mu (map momentum df)) then 1 else - 1);
          s4 = (if np_less d (Finite 0) then 1 else - 1);
          s5 = (if np_less (mu (map vsi df)) (vsi m) then 1 else - 1)
      in \<lparr>token = token m, pvr = pvr m, rvol = rvol m, momentum = momentum m, vsi = vsi m,
          pvrd = d, pvr_score = s1, rvol_score = s2, momentum_score = s3,
          pvrd_score = s4, vsi_score = s5, final_score = s1 + s2 + s3 + s4 + s5\<rparr>)"

definition score_rows :: "series_mean \<Rightarrow> rounding \<Rightarrow> metrics list \<Rightarrow> scored list" where
  "score_rows mu rnd df = map (score_row mu rnd df) df"

text \<open>
  \<^verbatim>\<open>DataFrame.sort_values(by=..., ascending=...)\<close> is pandas code, not code of this
  repository. It sorts the rows by an argsort of the key column; the source passes no
  \<^verbatim>\<open>kind\<close>, so the algorithm is pandas' default. The argsort is a parameter of the
  model: it takes the key column (\<^verbatim>\<open>nan\<close> for a missing value) and the flag
  \<^verbatim>\<open>ascending\<close>, and returns the row positions in their new order.
\<close>

type_synonym argsort = "npfloat list \<Rightarrow> bool \<Rightarrow> nat list"

definition sort_values :: "argsort \<Rightarrow> ('a \<Rightarrow> npfloat) \<Rightarrow> bool \<Rightarrow> 'a list \<Rightarrow> 'a list" where
  "sort_values srt key ascending df = map (\<lambda>i. df ! i) (srt (map key df) ascending)"

text \<open>
  What pandas documents for every \<^verbatim>\<open>kind\<close>: the result is a permutation of the
  rows, ordered by the key in the requested direction, missing values last. The order of
  rows with equal keys is not part of it.
\<close>

definition key_before :: "bool \<Rightarrow> npfloat \<Rightarrow> npfloat \<Rightarrow> bool" where
  "key_before ascending x y =
     (if y = NaN then True
      else if x = NaN then False
      else if ascending then \<not> np_less y x
      else \<not> np_less x y)"

definition argsort_ok :: "argsort \<Rightarrow> bool" where
  "argsort_ok srt \<longleftrightarrow>
     (\<forall>ks ascending.
        mset (srt ks ascending) = mset [0..<length ks] \<and>
        sorted_wrt (key_before ascending) (map (\<lambda>i. ks ! i) (srt ks ascending)))"

definition by_final_score :: "scored \<Rightarrow> npfloat" where
  "by_final_score r = Finite (of_int (final_score r))"

text \<open>
  \<^verbatim>\<open>pd.DataFrame([])\<close> has no columns, so \<^verbatim>\<open>df['pvr']\<close> on line 118 raises
  \<^verbatim>\<open>KeyError\<close> for an empty batch.
\<close>

definition rank_tokens ::
  "argsort \<Rightarrow> series_mean \<Rightarrow> rounding \<Rightarrow> metrics list \<Rightarrow> error + scored list" where
  "rank_tokens srt mu rnd tokens_metrics =
     (if tokens_metrics = [] then Inl KeyError
      else Inr (take 30 (sort_values srt by_final_score False (score_rows mu rnd tokens_metrics))))"

section \<open>Instances of the parameters\<close>

text \<open>An argsort that meets the contract: insertion of the positions, one by one.\<close>

fun insert_index :: "bool \<Rightarrow> npfloat list \<Rightarrow> nat \<Rightarrow> nat list \<Rightarrow> nat list" where
  "insert_index ascending ks i [] = [i]"
| "insert_index ascending ks i (j # js) =
     (if key_before ascending (ks ! i) (ks ! j) then i # j # js
      else j # insert_index ascending ks i js)"

definition insertion_argsort :: argsort where
  "insertion_argsort ks ascending = foldr (insert_index ascending ks) [0..<length ks] []"

text \<open>
  A second argsort that meets the contract: the same insertion, the positions taken in the
  opposite order. It differs from the first one only in the order of equal keys.
\<close>

definition reversing_argsort :: argsort where
  "reversing_argsort ks ascending =
     foldr (insert_index ascending ks) (rev [0..<length ks]) []"

text \<open>
  The largest float64, (2^53 - 1) * 2^971, and what the theorems on Python's division ask of a rounding:
  up to that bound it does not overflow, and from 1 on it does not underflow to zero.
  Rounding to the nearest float64 is such a rounding.
\<close>

definition max_float :: rat where
  "max_float =
     179769313486231570814527423731704356798070567525844996598917476803157260780028538760589558632766878171540458953514382464234321326889464182768467546703537516986049910576551282076245490090389328944075868508455133942304583236903222948165808559332123348274797826204144723168738177180919299881250404026184124858368"

definition rounding_ok :: "rounding \<Rightarrow> bool" where
  "rounding_ok rnd \<longleftrightarrow>
     (\<forall>q. (\<bar>q\<bar> \<le> max_float \<longrightarrow> \<not> is_inf (rnd q)) \<and> (1 \<le> \<bar>q\<bar> \<longrightarrow> \<not> is_zero (rnd q)))"

text \<open>
  Instances for the examples. They are not float64 arithmetic in general: \<open>unrounded\<close>
  keeps every value below 2^1024 as it is, and \<open>unrounded_mean\<close> is the exact mean.
  They are applied below only where every sum, difference and quotient is a float64
  itself, so that float64 arithmetic and the mean of pandas give these very values, and
  to the int 10^309, which is beyond the floats.
\<close>

definition unrounded :: rounding where
  "unrounded q = (if 2 ^ 1024 \<le> \<lfloor>\<bar>q\<bar>\<rfloor> then signed_inf (q < 0) else Finite q)"

definition unrounded_mean :: series_mean where
  "unrounded_mean xs = Finite (sum_list (map rat_of xs) / of_nat (length xs))"

text \<open>Example batches for the checks at concrete inputs.\<close>

definition batch_three :: "metrics list" where
  "batch_three =
     [\<lparr>token = JStr ''A'', pvr = Finite 10, rvol = Finite 1, momentum = Finite 3, vsi = Finite 2\<rparr>,
      \<lparr>token = JStr ''B'', pvr = Finite 20, rvol = Finite 2, momentum = Finite 2, vsi = Finite 2\<rparr>,
      \<lparr>token = JStr ''C'', pvr = Finite 30, rvol = Finite 3, momentum = Finite 1, vsi = Finite 5\<rparr>]"

definition batch_five :: "metrics list" where
  "batch_five =
     [\<lparr>token = JStr ''A'', pvr = Finite 1, rvol = Finite 5, momentum = Finite 0, vsi = Finite 1\<rparr>,
      \<lparr>token = JStr ''B'', pvr = Finite 2, rvol = Finite 4, momentum = Finite 0, vsi = Finite 2\<rparr>,
      \<lparr>token = JStr ''C'', pvr = Finite 4, rvol = Finite 3, momentum = Finite 0, vsi = Finite 3\<rparr>,
      \<lparr>token = JStr ''D'', pvr = Finite 4, rvol = Finite 2, momentum = Finite 0, vsi = Finite 4\<rparr>,
      \<lparr>token = JStr ''E'', pvr = Finite 9, rvol = Finite 1, momentum = Finite 0, vsi = Finite 5\<rparr>]"

definition batch_zero_pvr :: "metrics list" where
  "batch_zero_pvr =
     [\<lparr>token = JStr ''A'', pvr = Finite 0, rvol = Finite 1, momentum = Finite 0, vsi = Finite 1\<rparr>,
      \<lparr>token = JStr ''B'', pvr = Finite 0, rvol = Finite 3, momentum = Finite 0, vsi = Finite 3\<rparr>]"

definition batch_signed_pvr :: "metrics list" where
  "batch_signed_pvr =
     [\<lparr>token = JStr ''A'', pvr = Finite (- 1), rvol = Finite 0, momentum = Finite 0, vsi = Finite 0\<rparr>,
      \<lparr>token = JStr ''B'', pvr = Finite 1, rvol = Finite 0, momentum = Finite 0, vsi = Finite 0\<rparr>]"

section \<open>Python operations on parsed JSON\<close>

text \<open>A dict built by the JSON parser: of two equal keys the later one is kept.\<close>

definition dict_get :: "(string \<times> json) list \<Rightarrow> string \<Rightarrow> json option" where
  "dict_get kvs k = map_of (rev kvs) k"

text \<open>Sequencing of computations that can raise.\<close>

definition bind :: "error + 'a \<Rightarrow> ('a \<Rightarrow> error + 'b) \<Rightarrow> error + 'b" where
  "bind m f = (case m of Inl e \<Rightarrow> Inl e | Inr x \<Rightarrow> f x)"

text \<open>
  \<^verbatim>\<open>x[k]\<close> for a string key \<open>k\<close>: \<^verbatim>\<open>KeyError\<close> on a dict without the key,
  \<^verbatim>\<open>TypeError\<close> on everything that is not a dict.
\<close>

definition subscript :: "json \<Rightarrow> string \<Rightarrow> error + json" where
  "subscript x k =
     (case x of
        JObj kvs \<Rightarrow> (case dict_get kvs k of None \<Rightarrow> Inl KeyError | Some v \<Rightarrow> Inr v)
      | _ \<Rightarrow> Inl TypeError)"

text \<open>\<^verbatim>\<open>x.get(k, default)\<close>: only a dict has the method.\<close>

definition py_get :: "json \<Rightarrow> string \<Rightarrow> json \<Rightarrow> error + json" where
  "py_get x k dflt =
     (case x of
        JObj kvs \<Rightarrow> Inr (case dict_get kvs k of None \<Rightarrow> dflt | Some v \<Rightarrow> v)
      | _ \<Rightarrow> Inl AttributeError)"

text \<open>
  Truth value of an object, as \<^verbatim>\<open>if x:\<close> and \<^verbatim>\<open>x or y\<close> test it. Of the numbers, the
  zeros are false; \<^verbatim>\<open>nan\<close> is true.
\<close>

fun truthy :: "json \<Rightarrow> bool" where
  "truthy JNull = False"
| "truthy (JBool b) = b"
| "truthy (JNum (PyInt n)) = (n \<noteq> 0)"
| "truthy (JNum (PyFloat f)) = (\<not> is_zero f)"
| "truthy (JStr s) = (s \<noteq> [])"
| "truthy (JArr xs) = (xs \<noteq> [])"
| "truthy (JObj kvs) = (kvs \<noteq> [])"

text \<open>The numbers of Python: ints, floats, and the booleans, which count as 1 and 0.\<close>

fun as_number :: "json \<Rightarrow> number option" where
  "as_number (JNum x) = Some x"
| "as_number (JBool b) = Some (PyInt (if b then 1 else 0))"
| "as_number _ = None"

text \<open>\<^verbatim>\<open>x > 0\<close> on a number (exact, also between an int and a float), and on an object.\<close>

fun positive :: "number \<Rightarrow> bool" where
  "positive (PyInt n) = (0 < n)"
| "positive (PyFloat f) = np_less (Finite 0) f"

definition gt_zero :: "json \<Rightarrow> error + bool" where
  "gt_zero x = (case as_number x of None \<Rightarrow> Inl TypeError | Some a \<Rightarrow> Inr (positive a))"

text \<open>
  Python's \<^verbatim>\<open>a / b\<close>. Between two ints it rounds the exact quotient, and raises
  \<^verbatim>\<open>OverflowError\<close> when that is beyond the floats. Otherwise an int operand is first
  made a float, which raises \<^verbatim>\<open>OverflowError\<close> for an int beyond the floats, and the
  floats are divided, which overflows to an infinity without raising. A zero divisor
  raises \<^verbatim>\<open>ZeroDivisionError\<close>.
\<close>

definition no_overflow :: "npfloat \<Rightarrow> error + npfloat" where
  "no_overflow f = (if is_inf f then Inl OverflowError else Inr f)"

fun to_float :: "rounding \<Rightarrow> number \<Rightarrow> error + npfloat" where
  "to_float rnd (PyInt n) = (if n = 0 then Inr (Finite 0) else no_overflow (rnd (of_int n)))"
| "to_float rnd (PyFloat f) = Inr f"

fun truediv :: "rounding \<Rightarrow> number \<Rightarrow> number \<Rightarrow> error + npfloat" where
  "truediv rnd (PyInt a) (PyInt b) =
     (if b = 0 then Inl ZeroDivisionError
      else if a = 0 then Inr (signed_zero (b < 0))
      else no_overflow (rnd (of_int a / of_int b)))"
| "truediv rnd x y =
     bind (to_float rnd x) (\<lambda>a.
     bind (to_float rnd y) (\<lambda>b.
     if is_zero b then Inl ZeroDivisionError else Inr (np_divide rnd a b)))"

definition py_truediv :: "rounding \<Rightarrow> json \<Rightarrow> json \<Rightarrow> error + npfloat" where
  "py_truediv rnd x y =
     (case (as_number x, as_number y) of
        (Some a, Some b) \<Rightarrow> truediv rnd a b
      | _ \<Rightarrow> Inl TypeError)"

text \<open>\<^verbatim>\<open>s.lower()\<close>, for the ASCII letters; only a string has the method.\<close>

definition lower_char :: "char \<Rightarrow> char" where
  "lower_char c =
     (let n = of_char c :: nat in if 65 \<le> n \<and> n \<le> 90 then char_of (n + 32) else c)"

definition lower :: "json \<Rightarrow> error + string" where
  "lower x = (case x of JStr s \<Rightarrow> Inr (map lower_char s) | _ \<Rightarrow> Inl AttributeError)"

text \<open>\<^verbatim>\<open>for token in x\<close>: the elements of a list, the keys of a dict, the characters of a string.\<close>

definition iterate :: "json \<Rightarrow> error + json list" where
  "iterate x =
     (case x of
        JArr xs \<Rightarrow> Inr xs
      | JObj kvs \<Rightarrow> Inr (map JStr (rev (remdups (rev (map fst kvs)))))
      | JStr s \<Rightarrow> Inr (map (\<lambda>c. JStr [c]) s)
      | _ \<Rightarrow> Inl TypeError)"

text \<open>\<^verbatim>\<open>k in x\<close> for a string \<open>k\<close>: a key of a dict, an element of a list, a substring of a string.\<close>

definition contains :: "json \<Rightarrow> string \<Rightarrow> error + bool" where
  "contains x k =
     (case x of
        JObj kvs \<Rightarrow> Inr (dict_get kvs k \<noteq> None)
      | JArr xs \<Rightarrow> Inr (JStr k \<in> set xs)
      | JStr s \<Rightarrow> Inr (sublist k s)
      | _ \<Rightarrow> Inl TypeError)"

section \<open>Metrics of one token\<close>

definition price_change_key :: string where
  "price_change_key = ''price_change_percentage_7d_in_currency''"

text \<open>
  Lines 69 to 92. A conditional expression evaluates its condition first, and the
  branch not taken is not evaluated. The int \<^verbatim>\<open>0\<close> of an \<^verbatim>\<open>else\<close> branch is
  \<^verbatim>\<open>0.0\<close> in the float64 column of the frame, and is recorded so here.
\<close>

definition calculate_metrics :: "rounding \<Rightarrow> json \<Rightarrow> json \<Rightarrow> error + metrics" where
  "calculate_metrics rnd token_obj global_data =
     bind (bind (subscript token_obj ''current_price'') gt_zero) (\<lambda>price_positive.
     bind (if price_positive
           then bind (subscript token_obj ''total_volume'') (\<lambda>volume.
                bind (subscript token_obj ''current_price'') (\<lambda>price. py_truediv rnd volume price))
           else Inr (Finite 0)) (\<lambda>pvr_value.
     bind (py_get token_obj price_change_key JNull) (\<lambda>change.
     let price_change_percentage_7d = (if truthy change then change else JNum (PyInt 0)) in
     bind (bind (subscript token_obj ''market_cap'') gt_zero) (\<lambda>cap_positive.
     bind (if cap_positive
           then bind (subscript token_obj ''total_volume'') (\<lambda>volume.
                bind (subscript token_obj ''market_cap'') (\<lambda>cap. py_truediv rnd volume cap))
           else Inr (Finite 0)) (\<lambda>rvol_value.
     bind (py_truediv rnd price_change_percentage_7d (JNum (PyInt 100))) (\<lambda>momentum_value.
     bind (bind (subscript global_data ''total_volume'') (\<lambda>tv. subscript tv ''usd'')) (\<lambda>global_volume.
     bind (gt_zero global_volume) (\<lambda>global_positive.
     bind (if global_positive
           then bind (subscript token_obj ''total_volume'') (\<lambda>volume.
                py_truediv rnd volume global_volume)
           else Inr (Finite 0)) (\<lambda>vsi_value.
     bind (subscript token_obj ''name'') (\<lambda>name.
     Inr \<lparr>token = name, pvr = pvr_value, rvol = rvol_value, momentum = momentum_value,
          vsi = vsi_value\<rparr>))))))))))"

text \<open>
  Lines 97 to 100: \<^verbatim>\<open>token[k] if token[k] > 0 else 1\<close>. The value kept is a number,
  since the comparison has succeeded on it.
\<close>

definition positive_or_one :: "json \<Rightarrow> string \<Rightarrow> error + number" where
  "positive_or_one token_obj k =
     bind (bind (subscript token_obj k) gt_zero) (\<lambda>is_positive.
     if is_positive
     then bind (subscript token_obj k) (\<lambda>v.
          case as_number v of None \<Rightarrow> Inl TypeError | Some a \<Rightarrow> Inr a)
     else Inr (PyInt 1))"

text \<open>Lines 95 to 111. The second component is whatever \<^verbatim>\<open>token.get(key, 0)\<close> returns.\<close>

definition calculate_additional_metrics :: "rounding \<Rightarrow> json \<Rightarrow> error + npfloat \<times> json \<times> npfloat" where
  "calculate_additional_metrics rnd token_obj =
     bind (positive_or_one token_obj ''current_price'') (\<lambda>current_price.
     bind (positive_or_one token_obj ''ath'') (\<lambda>ath_price.
     bind (positive_or_one token_obj ''total_volume'') (\<lambda>total_volume.
     bind (positive_or_one token_obj ''market_cap'') (\<lambda>market_cap.
     bind (truediv rnd ath_price current_price) (\<lambda>potential_gains.
     bind (py_get token_obj price_change_key (JNum (PyInt 0))) (\<lambda>price_change_7d.
     bind (truediv rnd market_cap total_volume) (\<lambda>mc_vol_ratio.
     Inr (potential_gains, price_change_7d, mc_vol_ratio))))))))"

text \<open>
  A number that Python's division takes without overflow: a float, or an int no larger
  in magnitude than the largest float.
\<close>

fun in_float_range :: "number \<Rightarrow> bool" where
  "in_float_range (PyInt n) = (\<bar>of_int n\<bar> \<le> max_float)"
| "in_float_range (PyFloat f) = True"

text \<open>Example tokens and a global aggregate for the checks at concrete inputs.\<close>

definition token_plain :: json where
  "token_plain = JObj
     [(''name'', JStr ''Alpha''), (''symbol'', JStr ''alp''),
      (''current_price'', JNum (PyFloat (Finite 2))), (''ath'', JNum (PyInt 8)),
      (''total_volume'', JNum (PyInt 10)), (''market_cap'', JNum (PyInt 80)),
      (price_change_key, JNum (PyFloat (Finite 50)))]"

definition token_degenerate :: json where
  "token_degenerate = JObj
     [(''name'', JStr ''Beta''), (''symbol'', JStr ''bet''),
      (''current_price'', JNum (PyInt 0)), (''ath'', JNum (PyFloat (Finite (- 1)))),
      (''total_volume'', JNum (PyInt 0)), (''market_cap'', JNum (PyInt 0))]"

definition token_null_change :: json where
  "token_null_change = JObj
     [(''name'', JStr ''Gamma''), (''symbol'', JStr ''gam''),
      (''current_price'', JNum (PyInt 2)), (''ath'', JNum (PyInt 4)),
      (''total_volume'', JNum (PyInt 10)), (''market_cap'', JNum (PyInt 80)),
      (price_change_key, JNull)]"

text \<open>An int beyond the floats: the largest float is below 1.8 * 10^308.\<close>

definition beyond_floats :: int where
  "beyond_floats = 10 ^ 309"

definition token_huge :: json where
  "token_huge = JObj
     [(''name'', JStr ''Delta''), (''symbol'', JStr ''del''),
      (''current_price'', JNum (PyInt 0)), (''ath'', JNum (PyInt beyond_floats)),
      (''total_volume'', JNum (PyInt beyond_floats)), (''market_cap'', JNum (PyInt 1))]"

definition global_plain :: json where
  "global_plain = JObj [(''total_volume'', JObj [(''usd'', JNum (PyInt 1280))])]"

definition global_zero_volume :: json where
  "global_zero_volume = JObj [(''total_volume'', JObj [(''usd'', JNum (PyInt 0))])]"

section \<open>The outside world: HTTP, console, dashboard\<close>

record response =
  status_code :: int
  body :: "json option"

text \<open>One row of \<^verbatim>\<open>additional_df\<close> (lines 295 to 300).\<close>

record additional =
  Token :: json
  Potential_Gains :: npfloat
  Price_Change_7d :: json
  MC_Volume_Ratio :: npfloat

text \<open>The arguments of \<^verbatim>\<open>print\<close> and of an f-string, piece by piece.\<close>

datatype piece = S string | N int | J json

datatype shown =
    Text "piece list"
  | Ranked_frame "scored list"
  | Additional_frame "additional list"
  | Name_set "json set"

text \<open>
  What a run does to the world, in order. \<open>Call\<close> records that \<^verbatim>\<open>rank_tier\<close>
  invokes one of the metric and ranking functions; the source has no such record, it is
  kept to state which functions a run reaches.
\<close>

datatype event =
    Http_get string json
  | Sleep nat
  | Print "piece list"
  | St_write shown
  | St_pyplot string "(json \<times> npfloat) list"
  | Call string

text \<open>
  \<open>responses\<close>: the answers the server gives to the coming requests, in order;
  \<open>None\<close> as a body is a body that is not JSON. \<open>trace\<close>: the events so far.
\<close>

record world =
  responses :: "response list"
  trace :: "event list"

definition emit :: "event \<Rightarrow> world \<Rightarrow> world" where
  "emit e w = w\<lparr>trace := trace w @ [e]\<rparr>"

text \<open>\<^verbatim>\<open>requests.get\<close> raises when no answer comes.\<close>

definition requests_get :: "string \<Rightarrow> json \<Rightarrow> world \<Rightarrow> (error + response) \<times> world" where
  "requests_get url params w =
     (let w1 = emit (Http_get url params) w in
      case responses w1 of
        [] \<Rightarrow> (Inl ConnectionError, w1)
      | r # rs \<Rightarrow> (Inr r, w1\<lparr>responses := rs\<rparr>))"

definition response_json :: "response \<Rightarrow> error + json" where
  "response_json r = (case body r of None \<Rightarrow> Inl JSONDecodeError | Some j \<Rightarrow> Inr j)"

text \<open>Lines 9 to 22. \<^verbatim>\<open>None\<close> is returned as \<open>JNull\<close>.\<close>

definition fetch_with_rate_limit :: "string \<Rightarrow> json \<Rightarrow> world \<Rightarrow> (error + json) \<times> world" where
  "fetch_with_rate_limit url params w =
     (case requests_get url params w of
        (Inl e, w1) \<Rightarrow> (Inl e, w1)
      | (Inr first, w1) \<Rightarrow>
          (case (if status_code first = 429
                 then requests_get url params
                        (emit (Sleep 60)
                           (emit (Print [S ''Rate limit exceeded, sleeping for 60 seconds...'']) w1))
                 else (Inr first, w1)) of
             (Inl e, w2) \<Rightarrow> (Inl e, w2)
           | (Inr response, w2) \<Rightarrow>
               if status_code response = 200 then (response_json response, w2)
               else (Inr JNull,
                     emit (Print [S ''Error fetching data: '', N (status_code response)]) w2)))"

definition global_url :: string where
  "global_url = ''https://api.coingecko.com/api/v3/global''"

definition markets_url :: string where
  "markets_url = ''https://api.coingecko.com/api/v3/coins/markets''"

text \<open>Lines 25 to 32.\<close>

definition get_global_data :: "world \<Rightarrow> (error + json) \<times> world" where
  "get_global_data w =
     (case fetch_with_rate_limit global_url JNull w of
        (Inl e, w1) \<Rightarrow> (Inl e, w1)
      | (Inr global_data, w1) \<Rightarrow>
          (case (if truthy global_data then contains global_data ''data'' else Inr False) of
             Inl e \<Rightarrow> (Inl e, w1)
           | Inr True \<Rightarrow> (subscript global_data ''data'', w1)
           | Inr False \<Rightarrow>
               (Inr JNull,
                emit (Print [S ''Unexpected response structure for global data:'', J global_data])
                  w1)))"

definition stablecoins :: "string list" where
  "stablecoins =
     [''usdt'', ''usdc'', ''dai'', ''busd'', ''ust'', ''first digital usd'',
      ''lido staked ether'', ''weth'', ''l2 standard bridged weth (base)'',
      ''arbitrum bridged weth (arbitrum one)'', ''arbitrum bridged wbtc (arbitrum one)'',
      ''coinbase wrapped btc'', ''kelp dao restaked eth'', ''ethereumpow'',
      ''ether.fi staked eth'', ''wrapped steth'', ''swell ethereum'', ''jupiter staked sol'',
      ''bitcoin avalanche bridged (btc.b)'', ''lombard staked btc'',
      ''bridged usdc (polygon pos bridge)'', ''usual usd'', ''usdd'', ''paypal usd'',
      ''trueusd'', ''usdb'', ''marinade staked sol'', ''wrapped bitcoin'',
      ''solv protocol solvbtc'', ''binance staked sol'', ''solayer staked sol'', ''cwbtc'',
      ''polygon bridged wbtc (polygon pos)'', ''ether.fi staked btc'', ''tbtc'',
      ''usdx.money usdx'', ''binance-peg dogecoin'']"

text \<open>The condition of the comprehension on lines 61 to 64; \<^verbatim>\<open>and\<close> short-circuits.\<close>

definition keep_token :: "json \<Rightarrow> error + bool" where
  "keep_token token_obj =
     bind (bind (subscript token_obj ''symbol'') lower) (\<lambda>symbol.
     if symbol \<notin> set stablecoins
     then bind (bind (subscript token_obj ''name'') lower) (\<lambda>name. Inr (name \<notin> set stablecoins))
     else Inr False)"

fun filter_tokens :: "json list \<Rightarrow> error + json list" where
  "filter_tokens [] = Inr []"
| "filter_tokens (t # ts) =
     bind (keep_token t) (\<lambda>keep.
     bind (filter_tokens ts) (\<lambda>kept. Inr (if keep then t # kept else kept)))"

definition markets_params :: "int \<Rightarrow> json" where
  "markets_params page = JObj
     [(''vs_currency'', JStr ''usd''), (''order'', JStr ''market_cap_desc''),
      (''per_page'', JNum (PyInt 1000)), (''page'', JNum (PyInt page)), (''sparkline'', JBool False),
      (''price_change_percentage'', JStr ''7d,30d'')]"

text \<open>Lines 35 to 66.\<close>

definition get_top_tokens :: "int \<Rightarrow> world \<Rightarrow> (error + json) \<times> world" where
  "get_top_tokens page w =
     (case fetch_with_rate_limit markets_url (markets_params page) w of
        (Inl e, w1) \<Rightarrow> (Inl e, w1)
      | (Inr tokens, w1) \<Rightarrow>
          if truthy tokens
          then (bind (bind (iterate tokens) filter_tokens) (\<lambda>kept. Inr (JArr kept)), w1)
          else (Inr tokens, w1))"

section \<open>Selection across the four rankings\<close>

text \<open>
  Lines 432 to 467, on the four sets of names: \<open>gains\<close> from \<^verbatim>\<open>df_sorted\<close>,
  \<open>change\<close> from \<^verbatim>\<open>df_sorted_7d\<close>, \<open>mc_vol\<close> from \<^verbatim>\<open>df_sorted_mc_vol\<close> and
  \<open>score\<close> from \<^verbatim>\<open>df_sorted_final_score\<close>.
\<close>

definition tokens_in_all_four :: "'a set \<Rightarrow> 'a set \<Rightarrow> 'a set \<Rightarrow> 'a set \<Rightarrow> 'a set" where
  "tokens_in_all_four gains change mc_vol score = gains \<inter> change \<inter> mc_vol \<inter> score"

definition tokens_in_three :: "'a set \<Rightarrow> 'a set \<Rightarrow> 'a set \<Rightarrow> 'a set \<Rightarrow> 'a set" where
  "tokens_in_three gains change mc_vol score =
     ((gains \<inter> change \<inter> mc_vol) \<union> (gains \<inter> change \<inter> score) \<union> (change \<inter> mc_vol \<inter> score)
        \<union> (gains \<inter> mc_vol \<inter> score))
     - tokens_in_all_four gains change mc_vol score"

definition tokens_in_two :: "'a set \<Rightarrow> 'a set \<Rightarrow> 'a set \<Rightarrow> 'a set \<Rightarrow> 'a set" where
  "tokens_in_two gains change mc_vol score =
     ((gains \<inter> change) \<union> (gains \<inter> mc_vol) \<union> (gains \<inter> score) \<union> (change \<inter> mc_vol)
        \<union> (change \<inter> score) \<union> (mc_vol \<inter> score))
     - tokens_in_all_four gains change mc_vol score
     - tokens_in_three gains change mc_vol score"

section \<open>Rendering\<close>

text \<open>
  Lines 136 to 156. A bar plot is recorded by its title and its bars. A frame of no rows
  is sorted to a frame of no rows.
\<close>

definition visualize_rankings :: "argsort \<Rightarrow> scored list \<Rightarrow> world \<Rightarrow> world" where
  "visualize_rankings srt ranked_tokens w =
     (let w1 = emit (St_write (Text [S ''### Visualization of Top 30 Ranked Tokens''])) w;
          ranked_tokens_sorted = sort_values srt by_final_score False ranked_tokens
      in emit (St_pyplot ''Top 30 Tokens by Final Score''
                 (map (\<lambda>r. (token r, by_final_score r)) ranked_tokens_sorted)) w1)"

definition by_potential_gains :: "additional \<Rightarrow> npfloat" where
  "by_potential_gains r = Potential_Gains r"

text \<open>
  The column of 7-day changes in the frame: a float stays, \<^verbatim>\<open>None\<close> is a missing
  value (\<^verbatim>\<open>nan\<close>), an int that fits 64 bits is made a float. What pandas does with a
  column that holds anything else is outside this model (\<open>Unsupported\<close>).
\<close>

fun frame_cell :: "rounding \<Rightarrow> json \<Rightarrow> npfloat option" where
  "frame_cell rnd JNull = Some NaN"
| "frame_cell rnd (JNum (PyFloat f)) = Some f"
| "frame_cell rnd (JNum (PyInt n)) =
     (if \<bar>n\<bar> < 2 ^ 63 then Some (if n = 0 then Finite 0 else rnd (of_int n)) else None)"
| "frame_cell rnd _ = None"

definition by_price_change :: "rounding \<Rightarrow> additional \<Rightarrow> npfloat" where
  "by_price_change rnd r = (case frame_cell rnd (Price_Change_7d r) of None \<Rightarrow> NaN | Some f \<Rightarrow> f)"

definition sortable_change :: "rounding \<Rightarrow> json \<Rightarrow> bool" where
  "sortable_change rnd x \<longleftrightarrow> frame_cell rnd x \<noteq> None"

definition by_mc_vol :: "additional \<Rightarrow> npfloat" where
  "by_mc_vol r = MC_Volume_Ratio r"

text \<open>\<^verbatim>\<open>set(...)\<close> and \<^verbatim>\<open>intersection\<close> hash every name; lists and dicts cannot be hashed.\<close>

fun hashable :: "json \<Rightarrow> bool" where
  "hashable (JArr _) = False"
| "hashable (JObj _) = False"
| "hashable _ = True"

text \<open>One of the three reports of lines 437 to 474.\<close>

definition report :: "json set \<Rightarrow> string list \<Rightarrow> string \<Rightarrow> world \<Rightarrow> world" where
  "report names found nothing w =
     (if names \<noteq> {}
      then emit (St_write (Name_set names)) (foldl (\<lambda>w line. emit (St_write (Text [S line])) w) w found)
      else emit (St_write (Text [S nothing])) w)"

text \<open>
  Lines 375 to 474. \<^verbatim>\<open>pd.DataFrame([])\<close> has no columns, so the first sort raises
  \<^verbatim>\<open>KeyError\<close> on a frame of no rows.
\<close>

definition visualize_additional_metrics ::
  "argsort \<Rightarrow> rounding \<Rightarrow> additional list \<Rightarrow> scored list \<Rightarrow> world \<Rightarrow> (error + unit) \<times> world" where
  "visualize_additional_metrics srt rnd df ranked_tokens w =
     (if df = [] then (Inl KeyError, w)
      else
        let df_sorted = take 30 (sort_values srt by_potential_gains False df);
            w1 = emit (St_write (Text [S ''### Top 30 Tokens by Potential Gains from Current Price to ATH''])) w;
            w2 = emit (St_pyplot ''Top 30 Tokens by Potential Gains (x) from Current Price to ATH''
                        (map (\<lambda>r. (Token r, by_potential_gains r)) df_sorted)) w1
        in if \<not> list_all (\<lambda>r. sortable_change rnd (Price_Change_7d r)) df then (Inl Unsupported, w2)
        else
          let df_sorted_7d = take 30 (sort_values srt (by_price_change rnd) False df);
              w3 = emit (St_write (Text [S ''### Top 30 Tokens by 7-Day Price Change''])) w2;
              w4 = emit (St_pyplot ''Top 30 Tokens by 7-Day Price Change''
                          (map (\<lambda>r. (Token r, by_price_change rnd r)) df_sorted_7d)) w3;
              df_sorted_mc_vol = take 30 (sort_values srt by_mc_vol True df);
              w5 = emit (St_write (Text [S ''### Top 30 Tokens by Market Cap to Volume Ratio (Lower is Better)''])) w4;
              w6 = emit (St_pyplot ''Top 30 Tokens by Market Cap to Volume Ratio (Lower is Better)''
                          (map (\<lambda>r. (Token r, by_mc_vol r)) df_sorted_mc_vol)) w5;
              df_sorted_final_score = take 30 (sort_values srt by_final_score False ranked_tokens);
              gains = map Token df_sorted;
              change = map Token df_sorted_7d;
              mc_vol = map Token df_sorted_mc_vol;
              score = map token df_sorted_final_score
          in if \<not> list_all hashable (gains @ change @ mc_vol @ score) then (Inl TypeError, w6)
          else
            let w7 = report (tokens_in_all_four (set gains) (set change) (set mc_vol) (set score))
                       [''### Final Selection Consideration: Tokens Appearing in All Four Categories'',
                        ''These tokens appear in the top 30 of Potential Gains, Price Change, MC/Vol Ratio, and Final Score.'']
                       ''No tokens appeared in all four categories.'' w6;
                w8 = report (tokens_in_three (set gains) (set change) (set mc_vol) (set score))
                       [''### Tokens Appearing in Three of the Four Categories'',
                        ''These tokens appear in the top 30 of any three of the four categories.'']
                       ''No tokens appeared in three categories.'' w7;
                w9 = report (tokens_in_two (set gains) (set change) (set mc_vol) (set score))
                       [''### Tokens Appearing in Two of the Four Categories'',
                        ''These tokens appear in the top 30 of any two of the four categories.'']
                       ''No tokens appeared in two categories.'' w8
            in (Inr (), w9))"

section \<open>One tier: \<^verbatim>\<open>rank_tier\<close>\<close>

text \<open>The comprehension of line 280, one call of \<^verbatim>\<open>calculate_metrics\<close> per token.\<close>

fun all_metrics ::
  "rounding \<Rightarrow> json \<Rightarrow> json list \<Rightarrow> world \<Rightarrow> (error + metrics list) \<times> world" where
  "all_metrics rnd global_data [] w = (Inr [], w)"
| "all_metrics rnd global_data (t # ts) w =
     (let w1 = emit (Call ''calculate_metrics'') w in
      case calculate_metrics rnd t global_data of
        Inl e \<Rightarrow> (Inl e, w1)
      | Inr m \<Rightarrow>
          (case all_metrics rnd global_data ts w1 of
             (Inl e, w2) \<Rightarrow> (Inl e, w2)
           | (Inr ms, w2) \<Rightarrow> (Inr (m # ms), w2)))"

text \<open>The loop of lines 293 to 300.\<close>

fun all_additional ::
  "rounding \<Rightarrow> json list \<Rightarrow> world \<Rightarrow> (error + additional list) \<times> world" where
  "all_additional rnd [] w = (Inr [], w)"
| "all_additional rnd (t # ts) w =
     (let w1 = emit (Call ''calculate_additional_metrics'') w in
      case bind (calculate_additional_metrics rnd t) (\<lambda>(potential_gains, price_change_7d, mc_vol_ratio).
           bind (subscript t ''name'') (\<lambda>name.
           Inr \<lparr>Token = name, Potential_Gains = potential_gains,
                Price_Change_7d = price_change_7d, MC_Volume_Ratio = mc_vol_ratio\<rparr>)) of
        Inl e \<Rightarrow> (Inl e, w1)
      | Inr row \<Rightarrow>
          (case all_additional rnd ts w1 of
             (Inl e, w2) \<Rightarrow> (Inl e, w2)
           | (Inr rows, w2) \<Rightarrow> (Inr (row # rows), w2)))"

definition failed_global :: event where
  "failed_global = St_write (Text [S ''Failed to fetch global market data.''])"

definition failed_tokens :: "int \<Rightarrow> event" where
  "failed_tokens tier_number =
     St_write (Text [S ''Failed to fetch token data for Tier '', N tier_number, S ''.''])"

definition tier_heading :: "int \<Rightarrow> event" where
  "tier_heading tier_number =
     St_write (Text [S ''### Ranking Tier '', N tier_number, S '' (Tokens '',
       N (tier_number * 1000 - 999), S '' to '', N (tier_number * 1000), S '')''])"

text \<open>
  Lines 269 to 313. An exception raised in a callee is not caught: it ends
  \<^verbatim>\<open>rank_tier\<close>. The truth test on \<^verbatim>\<open>global_data\<close> guards every step that
  touches tokens.
\<close>

definition rank_tier ::
  "argsort \<Rightarrow> series_mean \<Rightarrow> rounding \<Rightarrow> int \<Rightarrow> world \<Rightarrow> (error + unit) \<times> world" where
  "rank_tier srt mu rnd tier_number w =
     (case get_global_data (emit (tier_heading tier_number) w) of
        (Inl e, w1) \<Rightarrow> (Inl e, w1)
      | (Inr global_data, w1) \<Rightarrow>
          if truthy global_data then
            (case get_top_tokens tier_number w1 of
               (Inl e, w2) \<Rightarrow> (Inl e, w2)
             | (Inr top_tokens, w2) \<Rightarrow>
                 if truthy top_tokens then
                   (case iterate top_tokens of
                      Inl e \<Rightarrow> (Inl e, w2)
                    | Inr toks \<Rightarrow>
                   (case all_metrics rnd global_data toks w2 of
                      (Inl e, w3) \<Rightarrow> (Inl e, w3)
                    | (Inr tokens_metrics, w3) \<Rightarrow>
                   (case rank_tokens srt mu rnd tokens_metrics of
                      Inl e \<Rightarrow> (Inl e, emit (Call ''rank_tokens'') w3)
                    | Inr ranked_tokens \<Rightarrow>
                   (let w4 = emit (St_write (Ranked_frame ranked_tokens))
                               (emit (St_write (Text [S ''### Top 30 Ranked Tokens for Tier '',
                                  N tier_number, S '' by Final Score'']))
                               (emit (Call ''rank_tokens'') w3));
                        w5 = visualize_rankings srt ranked_tokens w4
                    in
                    case all_additional rnd toks w5 of
                      (Inl e, w6) \<Rightarrow> (Inl e, w6)
                    | (Inr additional_df, w6) \<Rightarrow>
                        visualize_additional_metrics srt rnd additional_df ranked_tokens
                          (emit (St_write (Additional_frame additional_df))
                             (emit (St_write (Text [S ''### Tokens with Additional Metrics for Tier '',
                                N tier_number])) w6))))))
                 else (Inr (), emit (failed_tokens tier_number) w2))
          else (Inr (), emit failed_global w1))"

text \<open>
  The events of work on tokens: a request for a page of tokens, and a call of
  \<^verbatim>\<open>calculate_metrics\<close>, \<^verbatim>\<open>rank_tokens\<close> or \<^verbatim>\<open>calculate_additional_metrics\<close>.
\<close>

fun token_work :: "event \<Rightarrow> bool" where
  "token_work (Call _) = True"
| "token_work (Http_get url _) = (url = markets_url)"
| "token_work _ = False"

fun is_request :: "event \<Rightarrow> bool" where
  "is_request (Http_get _ _) = True"
| "is_request _ = False"

fun is_sleep :: "event \<Rightarrow> bool" where
  "is_sleep (Sleep _) = True"
| "is_sleep _ = False"

text \<open>The events that a run from \<open>w\<close> to \<open>w'\<close> has added.\<close>

definition new_events :: "world \<Rightarrow> world \<Rightarrow> event list" where
  "new_events w w' = drop (length (trace w)) (trace w')"

definition rate_limit_notice :: event where
  "rate_limit_notice = Print [S ''Rate limit exceeded, sleeping for 60 seconds...'']"

text \<open>Example worlds for the checks at concrete inputs.\<close>

definition world_limited_twice :: world where
  "world_limited_twice =
     \<lparr>responses = [\<lparr>status_code = 429, body = None\<rparr>, \<lparr>status_code = 429, body = None\<rparr>,
                    \<lparr>status_code = 200, body = Some (JObj [(''data'', global_plain)])\<rparr>],
      trace = []\<rparr>"

definition world_server_error :: world where
  "world_server_error =
     \<lparr>responses = [\<lparr>status_code = 500, body = None\<rparr>,
                    \<lparr>status_code = 200, body = Some (JArr [token_plain])\<rparr>],
      trace = []\<rparr>"

section \<open>Facts about sorting\<close>

lemma np_less_irrefl [simp]: "\<not> np_less x x"
  by (cases x) (simp_all add: np_less_def)

lemma key_before_total: "key_before a x y \<or> key_before a y x"
  by (cases x; cases y) (auto simp: key_before_def np_less_def)

lemma key_before_trans: "key_before a x y \<Longrightarrow> key_before a y z \<Longrightarrow> key_before a x z"
  by (cases x; cases y; cases z) (auto simp: key_before_def np_less_def split: if_splits)

lemma mset_insert_index: "mset (insert_index a ks i js) = add_mset i (mset js)"
  by (induction js) auto

lemma set_insert_index: "set (insert_index a ks i js) = insert i (set js)"
  by (induction js) auto

lemma sorted_insert_index:
  "sorted_wrt (\<lambda>i j. key_before a (ks ! i) (ks ! j)) js \<Longrightarrow>
   sorted_wrt (\<lambda>i j. key_before a (ks ! i) (ks ! j)) (insert_index a ks i js)"
proof (induction js)
  case Nil
  then show ?case by simp
next
  case (Cons j js)
  show ?case
  proof (cases "key_before a (ks ! i) (ks ! j)")
    case True
    with Cons.prems show ?thesis
      by (auto intro: key_before_trans)
  next
    case False
    then have "key_before a (ks ! j) (ks ! i)"
      using key_before_total by blast
    with False Cons show ?thesis
      by (auto simp: set_insert_index)
  qed
qed

lemma mset_foldr_insert_index: "mset (foldr (insert_index a ks) is []) = mset is"
  by (induction "is") (auto simp: mset_insert_index)

lemma sorted_foldr_insert_index:
  "sorted_wrt (\<lambda>i j. key_before a (ks ! i) (ks ! j)) (foldr (insert_index a ks) is [])"
  by (induction "is") (auto intro: sorted_insert_index)

lemma insertion_argsort_ok: "argsort_ok insertion_argsort"
  unfolding argsort_ok_def insertion_argsort_def
  by (simp add: mset_foldr_insert_index sorted_wrt_map sorted_foldr_insert_index)

lemma reversing_argsort_ok: "argsort_ok reversing_argsort"
  unfolding argsort_ok_def reversing_argsort_def
  by (simp add: mset_foldr_insert_index sorted_wrt_map sorted_foldr_insert_index)

lemma argsort_ok_mset: "argsort_ok srt \<Longrightarrow> mset (srt ks a) = mset [0..<length ks]"
  by (simp add: argsort_ok_def)

lemma argsort_ok_set: "argsort_ok srt \<Longrightarrow> set (srt ks a) = {0..<length ks}"
  by (metis argsort_ok_mset set_mset_mset set_upt)

lemma argsort_ok_length: "argsort_ok srt \<Longrightarrow> length (srt ks a) = length ks"
  by (metis argsort_ok_mset size_mset length_upt diff_zero)

lemma mset_sort_values:
  assumes "argsort_ok srt"
  shows "mset (sort_values srt key a df) = mset df"
proof -
  have "mset (map (\<lambda>i. df ! i) (srt (map key df) a)) = image_mset (\<lambda>i. df ! i) (mset [0..<length df])"
    using argsort_ok_mset [OF assms, of "map key df" a] by simp
  also have "\<dots> = mset (map (\<lambda>i. df ! i) [0..<length df])"
    by simp
  also have "\<dots> = mset df"
    by (simp add: map_nth)
  finally show ?thesis
    by (simp add: sort_values_def)
qed

lemma length_sort_values: "argsort_ok srt \<Longrightarrow> length (sort_values srt key a df) = length df"
  by (metis mset_sort_values size_mset)

lemma set_sort_values: "argsort_ok srt \<Longrightarrow> set (sort_values srt key a df) = set df"
  by (metis mset_sort_values set_mset_mset)

lemma sorted_sort_values:
  assumes "argsort_ok srt"
  shows "sorted_wrt (\<lambda>x y. key_before a (key x) (key y)) (sort_values srt key a df)"
proof -
  let ?p = "srt (map key df) a"
  have s: "sorted_wrt (\<lambda>i j. key_before a (map key df ! i) (map key df ! j)) ?p"
    using assms by (simp add: argsort_ok_def sorted_wrt_map)
  have r: "\<forall>i \<in> set ?p. i < length df"
    using argsort_ok_set [OF assms, of "map key df" a] by simp
  have "sorted_wrt (\<lambda>i j. key_before a (key (df ! i)) (key (df ! j))) ?p"
    by (rule sorted_wrt_mono_rel [OF _ s]) (use r in auto)
  then show ?thesis
    by (simp add: sort_values_def sorted_wrt_map)
qed

section \<open>Facts about the scores\<close>

lemma score_row_scores:
  "pvr_score (score_row mu rnd df m) = (if np_less (pvr m) (mu (map pvr df)) then 1 else - 1)"
  "rvol_score (score_row mu rnd df m) = (if np_less (mu (map rvol df)) (rvol m) then 1 else - 1)"
  "momentum_score (score_row mu rnd df m) =
     (if np_less (momentum m) (mu (map momentum df)) then 1 else - 1)"
  "pvrd_score (score_row mu rnd df m) = (if np_less (pvrd (score_row mu rnd df m)) (Finite 0) then 1 else - 1)"
  "vsi_score (score_row mu rnd df m) = (if np_less (mu (map vsi df)) (vsi m) then 1 else - 1)"
  "pvrd (score_row mu rnd df m) =
     np_divide rnd (np_subtract rnd (pvr m) (mu (map pvr df))) (mu (map pvr df))"
  "final_score (score_row mu rnd df m) =
     pvr_score (score_row mu rnd df m) + rvol_score (score_row mu rnd df m) + momentum_score (score_row mu rnd df m)
     + pvrd_score (score_row mu rnd df m) + vsi_score (score_row mu rnd df m)"
  by (simp_all add: score_row_def Let_def)

lemma score_row_pm:
  "pvr_score (score_row mu rnd df m) \<in> {1, - 1}"
  "rvol_score (score_row mu rnd df m) \<in> {1, - 1}"
  "momentum_score (score_row mu rnd df m) \<in> {1, - 1}"
  "pvrd_score (score_row mu rnd df m) \<in> {1, - 1}"
  "vsi_score (score_row mu rnd df m) \<in> {1, - 1}"
  by (simp_all add: score_row_scores)

lemma five_signs_sum:
  fixes a b c d e :: int
  assumes "a \<in> {1, - 1}" "b \<in> {1, - 1}" "c \<in> {1, - 1}" "d \<in> {1, - 1}" "e \<in> {1, - 1}"
  shows "a + b + c + d + e \<in> {- 5, - 3, - 1, 1, 3, 5}"
  using assms by auto

lemma rank_tokens_rows:
  assumes "argsort_ok srt" "rank_tokens srt mu rnd ms = Inr df"
  shows "set df \<subseteq> set (score_rows mu rnd ms)"
  using assms
  by (auto simp: rank_tokens_def set_sort_values split: if_splits dest: in_set_takeD)

lemma score_row_columns:
  "token (score_row mu rnd df m) = token m" "pvr (score_row mu rnd df m) = pvr m"
  "rvol (score_row mu rnd df m) = rvol m" "momentum (score_row mu rnd df m) = momentum m"
  "vsi (score_row mu rnd df m) = vsi m"
  by (simp_all add: score_row_def Let_def)

lemma length_score_rows: "length (score_rows mu rnd df) = length df"
  by (simp add: score_rows_def)

lemma rank_tokens_nonempty: "ms \<noteq> [] \<Longrightarrow> \<exists>df. rank_tokens srt mu rnd ms = Inr df"
  by (simp add: rank_tokens_def)

lemma score_rows_cases:
  assumes "r \<in> set (score_rows mu rnd df)"
  obtains m where "m \<in> set df" "r = score_row mu rnd df m"
  using assms by (auto simp: score_rows_def)

lemma score_rows_columns:
  "map (\<lambda>r. (token r, pvr r, rvol r, momentum r, vsi r)) (score_rows mu rnd df)
   = map (\<lambda>m. (token m, pvr m, rvol m, momentum m, vsi m)) df"
  by (simp add: score_rows_def score_row_columns)

lemma pvrd_zero_mean:
  assumes "is_zero z"
  shows "np_less (np_divide rnd (np_subtract rnd x z) z) (Finite 0) \<longleftrightarrow>
         (if z = NegZero then np_less (Finite 0) x else np_less x (Finite 0))"
  using assms
  by (cases z; cases x)
    (auto simp: np_divide_def np_subtract_def np_less_def signed_inf_def signed_zero_def)

section \<open>Claims about \<^verbatim>\<open>rank_tokens\<close>\<close>

text \<open>
  C1: for a non-empty batch \<^verbatim>\<open>rank_tokens\<close> returns a frame, and in every scored row (of the
  whole batch, and so of the returned frame) each of the five component scores is 1 or -1
  and \<open>final_score\<close> is their sum, so it is one of -5, -3, -1, 1, 3, 5: odd, never 0,
  within -5 and 5. This holds whatever the means and the rounding are.
\<close>

theorem rank_tokens_final_score:
  assumes "tokens_metrics \<noteq> []" and "argsort_ok srt"
  shows "\<exists>df. rank_tokens srt mu rnd tokens_metrics = Inr df \<and>
           (\<forall>r \<in> set (score_rows mu rnd tokens_metrics) \<union> set df.
              pvr_score r \<in> {1, - 1} \<and> rvol_score r \<in> {1, - 1} \<and> momentum_score r \<in> {1, - 1} \<and>
              pvrd_score r \<in> {1, - 1} \<and> vsi_score r \<in> {1, - 1} \<and>
              final_score r = pvr_score r + rvol_score r + momentum_score r + pvrd_score r + vsi_score r \<and>
              final_score r \<in> {- 5, - 3, - 1, 1, 3, 5} \<and>
              odd (final_score r) \<and> final_score r \<noteq> 0 \<and> - 5 \<le> final_score r \<and> final_score r \<le> 5)"
proof -
  obtain df where df: "rank_tokens srt mu rnd tokens_metrics = Inr df"
    using assms(1) by (simp add: rank_tokens_def)
  have sub: "set df \<subseteq> set (score_rows mu rnd tokens_metrics)"
    using rank_tokens_rows [OF assms(2) df] .
  have "pvr_score r \<in> {1, - 1} \<and> rvol_score r \<in> {1, - 1} \<and> momentum_score r \<in> {1, - 1} \<and>
        pvrd_score r \<in> {1, - 1} \<and> vsi_score r \<in> {1, - 1} \<and>
        final_score r = pvr_score r + rvol_score r + momentum_score r + pvrd_score r + vsi_score r \<and>
        final_score r \<in> {- 5, - 3, - 1, 1, 3, 5} \<and>
        odd (final_score r) \<and> final_score r \<noteq> 0 \<and> - 5 \<le> final_score r \<and> final_score r \<le> 5"
    if "r \<in> set (score_rows mu rnd tokens_metrics)" for r
  proof -
    from that obtain m where r: "r = score_row mu rnd tokens_metrics m"
      by (auto simp: score_rows_def)
    have s: "final_score r = pvr_score r + rvol_score r + momentum_score r + pvrd_score r + vsi_score r"
      unfolding r by (rule score_row_scores(7))
    have f: "final_score r \<in> {- 5, - 3, - 1, 1, 3, 5}"
      using five_signs_sum [OF score_row_pm, of mu rnd tokens_metrics m mu rnd tokens_metrics m
          mu rnd tokens_metrics m mu rnd tokens_metrics m mu rnd tokens_metrics m]
      by (simp only: r score_row_scores(7))
    then have "odd (final_score r) \<and> final_score r \<noteq> 0 \<and> - 5 \<le> final_score r \<and> final_score r \<le> 5"
      by auto
    with s f show ?thesis
      using score_row_pm [of mu rnd tokens_metrics m] unfolding r by blast
  qed
  with df sub show ?thesis
    by blast
qed

theorem rank_tokens_final_score_witness:
  "batch_three \<noteq> [] \<and> argsort_ok insertion_argsort \<and>
   (\<exists>df. rank_tokens insertion_argsort unrounded_mean unrounded batch_three = Inr df \<and>
      (\<forall>r \<in> set (score_rows unrounded_mean unrounded batch_three) \<union> set df.
         pvr_score r \<in> {1, - 1} \<and> rvol_score r \<in> {1, - 1} \<and> momentum_score r \<in> {1, - 1} \<and>
         pvrd_score r \<in> {1, - 1} \<and> vsi_score r \<in> {1, - 1} \<and>
         final_score r = pvr_score r + rvol_score r + momentum_score r + pvrd_score r + vsi_score r \<and>
         final_score r \<in> {- 5, - 3, - 1, 1, 3, 5} \<and>
         odd (final_score r) \<and> final_score r \<noteq> 0 \<and> - 5 \<le> final_score r \<and> final_score r \<le> 5)) \<and>
   map_sum id (map final_score) (rank_tokens insertion_argsort unrounded_mean unrounded batch_three)
     = Inr [1, - 1, - 5]"
proof -
  have ne: "batch_three \<noteq> []"
    by (simp add: batch_three_def)
  have v: "map_sum id (map final_score)
      (rank_tokens insertion_argsort unrounded_mean unrounded batch_three) = Inr [1, - 1, - 5]"
    by code_simp
  show ?thesis
    by (intro conjI ne insertion_argsort_ok v rank_tokens_final_score [OF ne insertion_argsort_ok])
qed

text \<open>
  C2: for a non-empty batch of n tokens \<^verbatim>\<open>rank_tokens\<close> returns min(30, n) rows of the
  scored batch, without error, and every returned row has a \<open>final_score\<close> at least
  that of every row left out.
\<close>

theorem rank_tokens_top30:
  assumes "tokens_metrics \<noteq> []" and "argsort_ok srt"
  shows "\<exists>df. rank_tokens srt mu rnd tokens_metrics = Inr df \<and>
           length df = min 30 (length tokens_metrics) \<and>
           mset df \<subseteq># mset (score_rows mu rnd tokens_metrics) \<and>
           (\<forall>x \<in># mset df. \<forall>y \<in># mset (score_rows mu rnd tokens_metrics) - mset df.
              final_score y \<le> final_score x)"
proof -
  let ?s = "sort_values srt by_final_score False (score_rows mu rnd tokens_metrics)"
  have df: "rank_tokens srt mu rnd tokens_metrics = Inr (take 30 ?s)"
    using assms(1) by (simp add: rank_tokens_def)
  have len: "length (take 30 ?s) = min 30 (length tokens_metrics)"
    by (simp add: length_sort_values [OF assms(2)] length_score_rows)
  have split: "mset (score_rows mu rnd tokens_metrics) = mset (take 30 ?s) + mset (drop 30 ?s)"
    by (metis append_take_drop_id mset_append mset_sort_values [OF assms(2)])
  have "sorted_wrt (\<lambda>x y. key_before False (by_final_score x) (by_final_score y)) (take 30 ?s @ drop 30 ?s)"
    using sorted_sort_values [OF assms(2), of False by_final_score "score_rows mu rnd tokens_metrics"]
    by simp
  then have "\<forall>x \<in> set (take 30 ?s). \<forall>y \<in> set (drop 30 ?s). final_score y \<le> final_score x"
    unfolding sorted_wrt_append by (simp add: by_final_score_def key_before_def np_less_def not_less)
  with df len split show ?thesis
    by simp
qed

theorem rank_tokens_top30_witness:
  "batch_five \<noteq> [] \<and> argsort_ok insertion_argsort \<and>
   (\<exists>df. rank_tokens insertion_argsort unrounded_mean unrounded batch_five = Inr df \<and> length df = 5 \<and>
      (\<forall>x \<in># mset df. \<forall>y \<in># mset (score_rows unrounded_mean unrounded batch_five) - mset df.
         final_score y \<le> final_score x)) \<and>
   map_sum id (map (\<lambda>r. (token r, final_score r)))
       (rank_tokens insertion_argsort unrounded_mean unrounded batch_five)
     = Inr [(JStr ''A'', 1), (JStr ''B'', 1), (JStr ''D'', - 3), (JStr ''E'', - 3), (JStr ''C'', - 5)]"
proof -
  have ne: "batch_five \<noteq> []"
    by (simp add: batch_five_def)
  have len: "min 30 (length batch_five) = 5"
    by (simp add: batch_five_def)
  have v: "map_sum id (map (\<lambda>r. (token r, final_score r)))
       (rank_tokens insertion_argsort unrounded_mean unrounded batch_five)
     = Inr [(JStr ''A'', 1), (JStr ''B'', 1), (JStr ''D'', - 3), (JStr ''E'', - 3), (JStr ''C'', - 5)]"
    by code_simp
  from rank_tokens_top30 [OF ne insertion_argsort_ok] ne insertion_argsort_ok v
  show ?thesis
    unfolding len by blast
qed

text \<open>
  C3: the component scores compare strictly, with the mean that pandas computes for the
  column (\<open>mu\<close>): \<open>pvr_score\<close> is 1 iff pvr is below the batch mean, \<open>rvol_score\<close> 1 iff
  rvol is above its mean, \<open>momentum_score\<close> 1 iff momentum is below its mean,
  \<open>pvrd_score\<close> 1 iff pvrd is below 0, \<open>vsi_score\<close> 1 iff vsi is above its mean, and -1
  otherwise; a metric equal to its mean scores -1, and pvr = [10, 20, 30] with mean 20
  scores [1, -1, -1].
\<close>

theorem score_strict_comparisons:
  assumes "tokens_metrics \<noteq> []" and "argsort_ok srt"
  shows "(\<exists>df. rank_tokens srt mu rnd tokens_metrics = Inr df \<and>
           (\<forall>r \<in> set (score_rows mu rnd tokens_metrics) \<union> set df.
              pvr_score r = (if np_less (pvr r) (mu (map pvr tokens_metrics)) then 1 else - 1) \<and>
              rvol_score r = (if np_less (mu (map rvol tokens_metrics)) (rvol r) then 1 else - 1) \<and>
              momentum_score r =
                (if np_less (momentum r) (mu (map momentum tokens_metrics)) then 1 else - 1) \<and>
              pvrd_score r = (if np_less (pvrd r) (Finite 0) then 1 else - 1) \<and>
              vsi_score r = (if np_less (mu (map vsi tokens_metrics)) (vsi r) then 1 else - 1) \<and>
              (pvr r = mu (map pvr tokens_metrics) \<longrightarrow> pvr_score r = - 1) \<and>
              (rvol r = mu (map rvol tokens_metrics) \<longrightarrow> rvol_score r = - 1) \<and>
              (momentum r = mu (map momentum tokens_metrics) \<longrightarrow> momentum_score r = - 1) \<and>
              (vsi r = mu (map vsi tokens_metrics) \<longrightarrow> vsi_score r = - 1))) \<and>
         map (\<lambda>r. (token r, pvr r, rvol r, momentum r, vsi r)) (score_rows mu rnd tokens_metrics)
           = map (\<lambda>m. (token m, pvr m, rvol m, momentum m, vsi m)) tokens_metrics \<and>
         (mu [Finite 10, Finite 20, Finite 30] = Finite 20 \<longrightarrow>
            map pvr_score (score_rows mu rnd
              [m1\<lparr>pvr := Finite 10\<rparr>, m2\<lparr>pvr := Finite 20\<rparr>, m3\<lparr>pvr := Finite 30\<rparr>])
            = [1, - 1, - 1])"
proof -
  obtain df where df: "rank_tokens srt mu rnd tokens_metrics = Inr df"
    using rank_tokens_nonempty [OF assms(1)] by blast
  have sub: "set df \<subseteq> set (score_rows mu rnd tokens_metrics)"
    using rank_tokens_rows [OF assms(2) df] .
  have row: "pvr_score r = (if np_less (pvr r) (mu (map pvr tokens_metrics)) then 1 else - 1) \<and>
      rvol_score r = (if np_less (mu (map rvol tokens_metrics)) (rvol r) then 1 else - 1) \<and>
      momentum_score r =
        (if np_less (momentum r) (mu (map momentum tokens_metrics)) then 1 else - 1) \<and>
      pvrd_score r = (if np_less (pvrd r) (Finite 0) then 1 else - 1) \<and>
      vsi_score r = (if np_less (mu (map vsi tokens_metrics)) (vsi r) then 1 else - 1) \<and>
      (pvr r = mu (map pvr tokens_metrics) \<longrightarrow> pvr_score r = - 1) \<and>
      (rvol r = mu (map rvol tokens_metrics) \<longrightarrow> rvol_score r = - 1) \<and>
      (momentum r = mu (map momentum tokens_metrics) \<longrightarrow> momentum_score r = - 1) \<and>
      (vsi r = mu (map vsi tokens_metrics) \<longrightarrow> vsi_score r = - 1)"
    if "r \<in> set (score_rows mu rnd tokens_metrics)" for r
  proof -
    from that obtain m where r: "r = score_row mu rnd tokens_metrics m"
      by (rule score_rows_cases)
    show ?thesis
      unfolding r by (simp add: score_row_scores(1-5) score_row_columns)
  qed
  have ex: "map pvr_score (score_rows mu rnd
        [m1\<lparr>pvr := Finite 10\<rparr>, m2\<lparr>pvr := Finite 20\<rparr>, m3\<lparr>pvr := Finite 30\<rparr>]) = [1, - 1, - 1]"
    if "mu [Finite 10, Finite 20, Finite 30] = Finite 20"
    using that by (simp add: score_rows_def score_row_scores(1) np_less_def)
  from df sub row score_rows_columns ex show ?thesis
    by blast
qed

theorem score_strict_comparisons_witness:
  "batch_three \<noteq> [] \<and> argsort_ok insertion_argsort \<and>
   unrounded_mean [Finite 10, Finite 20, Finite 30] = Finite 20 \<and>
   (\<exists>df. rank_tokens insertion_argsort unrounded_mean unrounded batch_three = Inr df \<and>
      (\<forall>r \<in> set (score_rows unrounded_mean unrounded batch_three) \<union> set df.
         pvr_score r = (if np_less (pvr r) (unrounded_mean (map pvr batch_three)) then 1 else - 1))) \<and>
   map pvr batch_three = [Finite 10, Finite 20, Finite 30] \<and>
   map pvr_score (score_rows unrounded_mean unrounded batch_three) = [1, - 1, - 1] \<and>
   map rvol_score (score_rows unrounded_mean unrounded batch_three) = [- 1, - 1, 1] \<and>
   map momentum_score (score_rows unrounded_mean unrounded batch_three) = [- 1, - 1, 1] \<and>
   map pvrd (score_rows unrounded_mean unrounded batch_three)
     = [Finite (- 1 / 2), Finite 0, Finite (1 / 2)] \<and>
   map pvrd_score (score_rows unrounded_mean unrounded batch_three) = [1, - 1, - 1] \<and>
   map vsi_score (score_rows unrounded_mean unrounded batch_three) = [- 1, - 1, 1]"
proof -
  have ne: "batch_three \<noteq> []"
    by (simp add: batch_three_def)
  have v: "unrounded_mean [Finite 10, Finite 20, Finite 30] = Finite 20"
    "map pvr batch_three = [Finite 10, Finite 20, Finite 30]"
    "map pvr_score (score_rows unrounded_mean unrounded batch_three) = [1, - 1, - 1]"
    "map rvol_score (score_rows unrounded_mean unrounded batch_three) = [- 1, - 1, 1]"
    "map momentum_score (score_rows unrounded_mean unrounded batch_three) = [- 1, - 1, 1]"
    "map pvrd (score_rows unrounded_mean unrounded batch_three)
       = [Finite (- 1 / 2), Finite 0, Finite (1 / 2)]"
    "map pvrd_score (score_rows unrounded_mean unrounded batch_three) = [1, - 1, - 1]"
    "map vsi_score (score_rows unrounded_mean unrounded batch_three) = [- 1, - 1, 1]"
    by code_simp+
  from score_strict_comparisons [OF ne insertion_argsort_ok, of unrounded_mean unrounded] ne
    insertion_argsort_ok v
  show ?thesis
    by blast
qed

text \<open>
  The mean that pandas computes need not be the exact mean. The float64 mean of the
  floats nearest to 0.1, 0.2 and 0.3 is the float next above the middle one; with that
  mean the middle token is below the mean and scores 1 as well.
\<close>

lemma score_with_rounded_mean:
  assumes "mu [Finite (3602879701896397 / 2 ^ 55), Finite (3602879701896397 / 2 ^ 54),
               Finite (5404319552844595 / 2 ^ 54)] = Finite (7205759403792795 / 2 ^ 55)"
  shows "map pvr_score (score_rows mu rnd
           [m1\<lparr>pvr := Finite (3602879701896397 / 2 ^ 55)\<rparr>,
            m2\<lparr>pvr := Finite (3602879701896397 / 2 ^ 54)\<rparr>,
            m3\<lparr>pvr := Finite (5404319552844595 / 2 ^ 54)\<rparr>])
         = [1, 1, - 1]"
  using assms by (simp add: score_rows_def score_row_scores(1) np_less_def)

text \<open>
  C10: as stated (every token of a batch with mean pvr 0 gets \<open>pvrd_score = -1\<close>) the claim
  fails: with pvr = [-1, 1] the mean is 0, pvrd is [-inf, inf], and the first token scores 1.
\<close>

theorem pvrd_score_zero_mean_counterexample:
  "batch_signed_pvr \<noteq> [] \<and> unrounded_mean (map pvr batch_signed_pvr) = Finite 0 \<and>
   map_sum id (map (\<lambda>r. (token r, pvr r, pvrd r, pvrd_score r)))
     (rank_tokens insertion_argsort unrounded_mean unrounded batch_signed_pvr)
     = Inr [(JStr ''A'', Finite (- 1), NegInf, 1), (JStr ''B'', Finite 1, PosInf, - 1)]"
  by code_simp

text \<open>
  C10, amended: for a non-empty batch whose mean pvr, as pandas computes it, is zero,
  \<^verbatim>\<open>rank_tokens\<close> returns a frame (the division by the zero mean raises nothing). When
  that mean is \<^verbatim>\<open>0.0\<close>, a token's \<open>pvrd_score\<close> is 1 exactly when its pvr is negative;
  when it is \<^verbatim>\<open>-0.0\<close>, exactly when its pvr is positive. A token whose pvr is zero gets
  -1 in both cases, so when every pvr of the batch is zero, every token gets -1.
\<close>

theorem pvrd_score_zero_mean:
  assumes "tokens_metrics \<noteq> []" and "argsort_ok srt"
    and "is_zero (mu (map pvr tokens_metrics))"
  shows "\<exists>df. rank_tokens srt mu rnd tokens_metrics = Inr df \<and>
           (\<forall>r \<in> set (score_rows mu rnd tokens_metrics) \<union> set df.
              pvrd_score r =
                (if (if mu (map pvr tokens_metrics) = NegZero then np_less (Finite 0) (pvr r)
                     else np_less (pvr r) (Finite 0))
                 then 1 else - 1) \<and>
              (is_zero (pvr r) \<longrightarrow> pvrd_score r = - 1)) \<and>
           ((\<forall>m \<in> set tokens_metrics. is_zero (pvr m)) \<longrightarrow>
              (\<forall>r \<in> set (score_rows mu rnd tokens_metrics) \<union> set df. pvrd_score r = - 1))"
proof -
  obtain df where df: "rank_tokens srt mu rnd tokens_metrics = Inr df"
    using rank_tokens_nonempty [OF assms(1)] by blast
  have sub: "set df \<subseteq> set (score_rows mu rnd tokens_metrics)"
    using rank_tokens_rows [OF assms(2) df] .
  have zero: "\<not> np_less (Finite 0) x \<and> \<not> np_less x (Finite 0)" if "is_zero x" for x
    using that by (cases x) (simp_all add: np_less_def)
  have row: "pvrd_score r =
        (if (if mu (map pvr tokens_metrics) = NegZero then np_less (Finite 0) (pvr r)
             else np_less (pvr r) (Finite 0))
         then 1 else - 1) \<and>
      (is_zero (pvr r) \<longrightarrow> pvrd_score r = - 1) \<and> pvr r \<in> pvr ` set tokens_metrics"
    if "r \<in> set (score_rows mu rnd tokens_metrics)" for r
  proof -
    from that obtain m where m: "m \<in> set tokens_metrics" and r: "r = score_row mu rnd tokens_metrics m"
      by (rule score_rows_cases)
    have p: "pvr r = pvr m"
      unfolding r by (simp add: score_row_columns)
    have s: "pvrd_score r =
        (if (if mu (map pvr tokens_metrics) = NegZero then np_less (Finite 0) (pvr r)
             else np_less (pvr r) (Finite 0))
         then 1 else - 1)"
      unfolding r
      by (simp only: score_row_scores(4,6) score_row_columns pvrd_zero_mean [OF assms(3)])
    have "pvrd_score r = - 1" if "is_zero (pvr r)"
      using zero [OF that] s by simp
    with s p m show ?thesis
      by simp
  qed
  have all: "\<forall>r \<in> set (score_rows mu rnd tokens_metrics) \<union> set df.
      pvrd_score r =
        (if (if mu (map pvr tokens_metrics) = NegZero then np_less (Finite 0) (pvr r)
             else np_less (pvr r) (Finite 0))
         then 1 else - 1) \<and>
      (is_zero (pvr r) \<longrightarrow> pvrd_score r = - 1)"
    using row sub by blast
  have "\<forall>r \<in> set (score_rows mu rnd tokens_metrics) \<union> set df. pvrd_score r = - 1"
    if "\<forall>m \<in> set tokens_metrics. is_zero (pvr m)"
  proof
    fix r assume "r \<in> set (score_rows mu rnd tokens_metrics) \<union> set df"
    then have r: "r \<in> set (score_rows mu rnd tokens_metrics)"
      using sub by blast
    then have "is_zero (pvr r)"
      using row [OF r] that by auto
    with row [OF r] show "pvrd_score r = - 1"
      by simp
  qed
  with df all show ?thesis
    by blast
qed

theorem pvrd_score_zero_mean_witness:
  "batch_zero_pvr \<noteq> [] \<and> argsort_ok insertion_argsort \<and>
   is_zero (unrounded_mean (map pvr batch_zero_pvr)) \<and>
   (\<exists>df. rank_tokens insertion_argsort unrounded_mean unrounded batch_zero_pvr = Inr df \<and>
      (\<forall>r \<in> set (score_rows unrounded_mean unrounded batch_zero_pvr) \<union> set df. pvrd_score r = - 1)) \<and>
   map_sum id (map (\<lambda>r. (token r, pvrd r, pvrd_score r)))
     (rank_tokens insertion_argsort unrounded_mean unrounded batch_zero_pvr)
     = Inr [(JStr ''B'', NaN, - 1), (JStr ''A'', NaN, - 1)]"
proof -
  have ne: "batch_zero_pvr \<noteq> []"
    by (simp add: batch_zero_pvr_def)
  have z: "is_zero (unrounded_mean (map pvr batch_zero_pvr))"
    by code_simp
  have nn: "\<forall>m \<in> set batch_zero_pvr. is_zero (pvr m)"
    by (simp add: batch_zero_pvr_def)
  have v: "map_sum id (map (\<lambda>r. (token r, pvrd r, pvrd_score r)))
     (rank_tokens insertion_argsort unrounded_mean unrounded batch_zero_pvr)
     = Inr [(JStr ''B'', NaN, - 1), (JStr ''A'', NaN, - 1)]"
    by code_simp
  from pvrd_score_zero_mean [of batch_zero_pvr insertion_argsort unrounded_mean unrounded,
      OF ne insertion_argsort_ok z] nn ne insertion_argsort_ok z v
  show ?thesis
    by blast
qed

text \<open>
  The order of rows with equal \<open>final_score\<close> is not fixed by the contract of
  \<^verbatim>\<open>sort_values\<close>: two argsorts that meet it return the rows A and B, and D and E, of
  one batch in different orders. Whether \<^verbatim>\<open>rank_tokens\<close> keeps the batch order among
  equal scores is therefore a property of the sort inside pandas, which line 131 calls
  with its default \<^verbatim>\<open>kind\<close>.
\<close>

lemma tie_order_not_fixed_by_contract:
  "argsort_ok insertion_argsort \<and> argsort_ok reversing_argsort \<and>
   map_sum id (map (\<lambda>r. (token r, final_score r)))
       (rank_tokens insertion_argsort unrounded_mean unrounded batch_five)
     = Inr [(JStr ''A'', 1), (JStr ''B'', 1), (JStr ''D'', - 3), (JStr ''E'', - 3), (JStr ''C'', - 5)] \<and>
   map_sum id (map (\<lambda>r. (token r, final_score r)))
       (rank_tokens reversing_argsort unrounded_mean unrounded batch_five)
     = Inr [(JStr ''B'', 1), (JStr ''A'', 1), (JStr ''E'', - 3), (JStr ''D'', - 3), (JStr ''C'', - 5)]"
proof -
  have "map_sum id (map (\<lambda>r. (token r, final_score r)))
       (rank_tokens insertion_argsort unrounded_mean unrounded batch_five)
     = Inr [(JStr ''A'', 1), (JStr ''B'', 1), (JStr ''D'', - 3), (JStr ''E'', - 3), (JStr ''C'', - 5)]"
    by code_simp
  moreover
  have "map_sum id (map (\<lambda>r. (token r, final_score r)))
       (rank_tokens reversing_argsort unrounded_mean unrounded batch_five)
     = Inr [(JStr ''B'', 1), (JStr ''A'', 1), (JStr ''E'', - 3), (JStr ''D'', - 3), (JStr ''C'', - 5)]"
    by code_simp
  ultimately show ?thesis
    using insertion_argsort_ok reversing_argsort_ok by (intro conjI)
qed

section \<open>Facts about the Python operations\<close>

lemma bind_Inr [simp]: "bind (Inr x) f = f x"
  by (simp add: bind_def)

lemma bind_Inl [simp]: "bind (Inl e) f = Inl e"
  by (simp add: bind_def)

lemma py_truediv_numbers [simp]: "py_truediv rnd (JNum a) (JNum b) = truediv rnd a b"
  by (simp add: py_truediv_def)

lemma positive_or_one_number:
  "subscript token_obj k = Inr (JNum a) \<Longrightarrow>
   positive_or_one token_obj k = Inr (if positive a then a else PyInt 1)"
  by (simp add: positive_or_one_def gt_zero_def)

lemma py_get_default:
  "py_get x k JNull = Inr v \<Longrightarrow> \<exists>v'. py_get x k d = Inr v'"
  by (auto simp: py_get_def split: json.splits)

lemma max_float_less: "max_float < 2 ^ 1024"
  by (simp add: max_float_def)

lemma one_le_max_float: "1 \<le> max_float"
  by (simp add: max_float_def)

lemma unrounded_in_range:
  fixes q :: rat
  assumes "\<bar>q\<bar> \<le> max_float"
  shows "unrounded q = Finite q"
proof -
  have "of_int \<lfloor>\<bar>q\<bar>\<rfloor> \<le> \<bar>q\<bar>"
    by simp
  also have "\<dots> < 2 ^ 1024"
    using assms max_float_less by simp
  finally have "(of_int \<lfloor>\<bar>q\<bar>\<rfloor> :: rat) < of_int (2 ^ 1024)"
    by simp
  then have "\<lfloor>\<bar>q\<bar>\<rfloor> < 2 ^ 1024"
    by (simp only: of_int_less_iff)
  then have "\<not> 2 ^ 1024 \<le> \<lfloor>\<bar>q\<bar>\<rfloor>"
    by (simp only: not_le)
  then show ?thesis
    by (simp only: unrounded_def if_False)
qed

lemma unrounded_ok: "rounding_ok unrounded"
  unfolding rounding_ok_def
proof (intro allI conjI impI)
  fix q :: rat
  show "\<not> is_inf (unrounded q)" if "\<bar>q\<bar> \<le> max_float"
    by (simp add: unrounded_in_range [OF that])
  show "\<not> is_zero (unrounded q)" if "1 \<le> \<bar>q\<bar>"
  proof -
    from that have "q \<noteq> 0" by auto
    then show ?thesis
      by (simp add: unrounded_def signed_inf_def)
  qed
qed

lemma rounding_ok_no_overflow:
  "rounding_ok rnd \<Longrightarrow> \<bar>q\<bar> \<le> max_float \<Longrightarrow> no_overflow (rnd q) = Inr (rnd q)"
  by (simp add: rounding_ok_def no_overflow_def)

lemma rounding_ok_nonzero: "rounding_ok rnd \<Longrightarrow> 1 \<le> \<bar>q\<bar> \<Longrightarrow> \<not> is_zero (rnd q)"
  by (simp add: rounding_ok_def)

lemma to_float_in_range:
  assumes "rounding_ok rnd" and "in_float_range a"
  shows "\<exists>f. to_float rnd a = Inr f \<and> (positive a \<longrightarrow> \<not> is_zero f)"
proof (cases a)
  case (PyInt n)
  show ?thesis
  proof (cases "n = 0")
    case True
    with PyInt show ?thesis by simp
  next
    case False
    have "1 \<le> \<bar>of_int n :: rat\<bar>" if "0 < n"
      using that by simp
    with PyInt False assms show ?thesis
      by (simp add: rounding_ok_no_overflow rounding_ok_nonzero)
  qed
next
  case (PyFloat f)
  then show ?thesis
    by (cases f) (auto simp: np_less_def)
qed

lemma quotient_in_range:
  fixes a b :: int
  assumes "\<bar>of_int a\<bar> \<le> max_float" and "b \<noteq> 0"
  shows "\<bar>of_int a / of_int b :: rat\<bar> \<le> max_float"
proof -
  have "1 \<le> \<bar>b\<bar>"
    using assms(2) by simp
  then have "(1 :: rat) \<le> of_int \<bar>b\<bar>"
    by (simp only: of_int_1_le_iff)
  then have "1 \<le> \<bar>of_int b :: rat\<bar>"
    by simp
  then have "\<bar>of_int a :: rat\<bar> * 1 \<le> \<bar>of_int a\<bar> * \<bar>of_int b\<bar>"
    by (intro mult_left_mono) simp_all
  then have "\<bar>of_int a / of_int b :: rat\<bar> \<le> \<bar>of_int a\<bar>"
    using assms(2) by (simp add: abs_divide field_simps)
  with assms(1) show ?thesis
    by simp
qed

lemma truediv_in_range:
  assumes "rounding_ok rnd" and "in_float_range a" and "in_float_range b" and "positive b"
  shows "\<exists>f. truediv rnd a b = Inr f"
proof (cases a)
  case a: (PyInt m)
  show ?thesis
  proof (cases b)
    case b: (PyInt n)
    from assms(4) b have n: "n \<noteq> 0" by simp
    from assms(2) a have "\<bar>of_int m\<bar> \<le> max_float" by simp
    from quotient_in_range [OF this n] assms(1) a b n show ?thesis
      by (simp add: rounding_ok_no_overflow)
  next
    case b: (PyFloat g)
    from to_float_in_range [OF assms(1,2)] obtain f where "to_float rnd a = Inr f"
      by blast
    with to_float_in_range [OF assms(1,3)] assms(4) a b show ?thesis
      by auto
  qed
next
  case a: (PyFloat f)
  from to_float_in_range [OF assms(1,3)] assms(4) obtain g
    where "to_float rnd b = Inr g" "\<not> is_zero g"
    by blast
  with a show ?thesis
    by (cases b) auto
qed

section \<open>Claims about the metrics of one token\<close>

text \<open>
  C4: as stated (for every token, the divisions never fail) the claim fails: Python's
  \<^verbatim>\<open>/\<close> raises \<^verbatim>\<open>OverflowError\<close> on an int beyond the floats. On a token with
  \<^verbatim>\<open>current_price = 0\<close>, \<^verbatim>\<open>market_cap = 1\<close> and the int 10^309 (\<open>beyond_floats\<close>) as \<^verbatim>\<open>total_volume\<close> and
  \<^verbatim>\<open>ath\<close>, line 77 raises it in \<^verbatim>\<open>calculate_metrics\<close> and line 103 in
  \<^verbatim>\<open>calculate_additional_metrics\<close>.
\<close>

theorem calculate_metrics_guards_counterexample:
  "calculate_metrics unrounded token_huge global_plain = Inl OverflowError \<and>
   calculate_additional_metrics unrounded token_huge = Inl OverflowError"
proof -
  have pos: "0 < beyond_floats"
    by (simp add: beyond_floats_def)
  then have n: "beyond_floats \<noteq> 0"
    by simp
  have h: "unrounded (of_int beyond_floats) = PosInf"
    by (simp add: beyond_floats_def unrounded_def signed_inf_def)
  have d: "truediv unrounded (PyInt beyond_floats) (PyInt 1) = Inl OverflowError"
    using n by (simp add: h no_overflow_def)
  have s: "subscript token_huge ''current_price'' = Inr (JNum (PyInt 0))"
    "subscript token_huge ''ath'' = Inr (JNum (PyInt beyond_floats))"
    "subscript token_huge ''total_volume'' = Inr (JNum (PyInt beyond_floats))"
    "subscript token_huge ''market_cap'' = Inr (JNum (PyInt 1))"
    "py_get token_huge price_change_key JNull = Inr JNull"
    by (simp_all add: token_huge_def subscript_def py_get_def dict_get_def price_change_key_def)
  have m: "calculate_metrics unrounded token_huge global_plain = Inl OverflowError"
    unfolding calculate_metrics_def
    by (simp add: s gt_zero_def d pos del: truediv.simps)
  have a: "calculate_additional_metrics unrounded token_huge = Inl OverflowError"
    unfolding calculate_additional_metrics_def
    by (simp add: positive_or_one_number [OF s(1)] positive_or_one_number [OF s(2)]
        positive_or_one_number [OF s(3)] positive_or_one_number [OF s(4)] d pos del: truediv.simps)
  from m a show ?thesis
    by (rule conjI)
qed

text \<open>
  C4, amended: take a token whose \<^verbatim>\<open>current_price\<close>, \<^verbatim>\<open>total_volume\<close>, \<^verbatim>\<open>market_cap\<close>
  and \<^verbatim>\<open>ath\<close> are numbers, each a float or an int no larger in magnitude than the largest
  float (its 7-day change such a number, null or absent), and a global aggregate whose
  total volume is such a number. Then \<^verbatim>\<open>calculate_metrics\<close> returns without error; pvr
  is 0 when the price is not positive, rvol is 0 when the market cap is not positive, vsi
  is 0 when the global volume is not positive (so none of them is NaN there), and each is
  the quotient otherwise. \<^verbatim>\<open>calculate_additional_metrics\<close> returns without error too:
  it divides ath by the price and the market cap by the volume after putting 1 for each
  of the four that is not positive, so both divisors are positive and no division is by
  zero.
\<close>

theorem calculate_metrics_guards:
  assumes "rounding_ok rnd"
    and "subscript token_obj ''current_price'' = Inr (JNum price)" and "in_float_range price"
    and "subscript token_obj ''total_volume'' = Inr (JNum volume)" and "in_float_range volume"
    and "subscript token_obj ''market_cap'' = Inr (JNum cap)" and "in_float_range cap"
    and "subscript token_obj ''ath'' = Inr (JNum ath)" and "in_float_range ath"
    and "subscript token_obj ''name'' = Inr name"
    and "py_get token_obj price_change_key JNull = Inr change"
    and "change = JNull \<or> (\<exists>c. change = JNum c \<and> in_float_range c)"
    and "subscript global_data ''total_volume'' = Inr tv"
    and "subscript tv ''usd'' = Inr (JNum global_volume)" and "in_float_range global_volume"
  shows "\<exists>m gains change' ratio.
           calculate_metrics rnd token_obj global_data = Inr m \<and>
           (\<not> positive price \<longrightarrow> pvr m = Finite 0) \<and>
           (\<not> positive cap \<longrightarrow> rvol m = Finite 0) \<and>
           (\<not> positive global_volume \<longrightarrow> vsi m = Finite 0) \<and>
           (positive price \<longrightarrow> truediv rnd volume price = Inr (pvr m)) \<and>
           (positive cap \<longrightarrow> truediv rnd volume cap = Inr (rvol m)) \<and>
           (positive global_volume \<longrightarrow> truediv rnd volume global_volume = Inr (vsi m)) \<and>
           calculate_additional_metrics rnd token_obj = Inr (gains, change', ratio) \<and>
           truediv rnd (if positive ath then ath else PyInt 1)
             (if positive price then price else PyInt 1) = Inr gains \<and>
           truediv rnd (if positive cap then cap else PyInt 1)
             (if positive volume then volume else PyInt 1) = Inr ratio \<and>
           positive (if positive price then price else PyInt 1) \<and>
           positive (if positive volume then volume else PyInt 1)"
proof -
  let ?one = "PyInt 1"
  have one: "in_float_range ?one"
    using one_le_max_float by simp
  have hundred: "in_float_range (PyInt 100)" "positive (PyInt 100)"
    by (simp_all add: max_float_def)
  obtain pvr_value where pvr_value:
    "(if positive price then truediv rnd volume price else Inr (Finite 0)) = Inr pvr_value"
    using truediv_in_range [OF assms(1,5,3)] by (cases "positive price") auto
  obtain rvol_value where rvol_value:
    "(if positive cap then truediv rnd volume cap else Inr (Finite 0)) = Inr rvol_value"
    using truediv_in_range [OF assms(1,5,7)] by (cases "positive cap") auto
  obtain vsi_value where vsi_value:
    "(if positive global_volume then truediv rnd volume global_volume else Inr (Finite 0))
       = Inr vsi_value"
    using truediv_in_range [OF assms(1,5,15)] by (cases "positive global_volume") auto
  have "\<exists>mo. py_truediv rnd (if truthy change then change else JNum (PyInt 0)) (JNum (PyInt 100))
      = Inr mo"
  proof (cases "change = JNull")
    case True
    then show ?thesis by simp
  next
    case False
    with assms(12) obtain c where c: "change = JNum c" "in_float_range c"
      by blast
    from truediv_in_range [OF assms(1) c(2) hundred] obtain mo
      where "truediv rnd c (PyInt 100) = Inr mo"
      by blast
    with c(1) show ?thesis
      by (cases "truthy (JNum c)") simp_all
  qed
  then obtain mo where mo:
    "py_truediv rnd (if truthy change then change else JNum (PyInt 0)) (JNum (PyInt 100)) = Inr mo"
    by blast
  have m: "calculate_metrics rnd token_obj global_data =
      Inr \<lparr>token = name, pvr = pvr_value, rvol = rvol_value, momentum = mo, vsi = vsi_value\<rparr>"
    unfolding calculate_metrics_def
    using pvr_value rvol_value vsi_value
    by (simp add: assms(2,4,6,10,11,13,14) mo gt_zero_def Let_def del: truediv.simps
        split: if_splits)
  obtain change' where c': "py_get token_obj price_change_key (JNum (PyInt 0)) = Inr change'"
    using py_get_default [OF assms(11)] by blast
  have dp: "in_float_range (if positive price then price else ?one)"
    "positive (if positive price then price else ?one)"
    using assms(3) one by simp_all
  have dv: "in_float_range (if positive volume then volume else ?one)"
    "positive (if positive volume then volume else ?one)"
    using assms(5) one by simp_all
  have na: "in_float_range (if positive ath then ath else ?one)"
    using assms(9) one by simp
  have nc: "in_float_range (if positive cap then cap else ?one)"
    using assms(7) one by simp
  obtain gains where gains:
    "truediv rnd (if positive ath then ath else ?one) (if positive price then price else ?one)
       = Inr gains"
    using truediv_in_range [OF assms(1) na dp] by blast
  obtain ratio where ratio:
    "truediv rnd (if positive cap then cap else ?one) (if positive volume then volume else ?one)
       = Inr ratio"
    using truediv_in_range [OF assms(1) nc dv] by blast
  have a: "calculate_additional_metrics rnd token_obj = Inr (gains, change', ratio)"
    unfolding calculate_additional_metrics_def
    by (simp only: positive_or_one_number [OF assms(2)] positive_or_one_number [OF assms(4)]
        positive_or_one_number [OF assms(6)] positive_or_one_number [OF assms(8)]
        bind_Inr gains ratio c')
  from pvr_value rvol_value vsi_value
  have guards: "(\<not> positive price \<longrightarrow> pvr_value = Finite 0) \<and>
      (\<not> positive cap \<longrightarrow> rvol_value = Finite 0) \<and>
      (\<not> positive global_volume \<longrightarrow> vsi_value = Finite 0) \<and>
      (positive price \<longrightarrow> truediv rnd volume price = Inr pvr_value) \<and>
      (positive cap \<longrightarrow> truediv rnd volume cap = Inr rvol_value) \<and>
      (positive global_volume \<longrightarrow> truediv rnd volume global_volume = Inr vsi_value)"
    by (auto split: if_splits)
  show ?thesis
    unfolding m a using guards gains ratio dp(2) dv(2) by simp
qed

theorem calculate_metrics_guards_witness:
  "rounding_ok unrounded \<and>
   subscript token_degenerate ''current_price'' = Inr (JNum (PyInt 0)) \<and>
   subscript token_degenerate ''total_volume'' = Inr (JNum (PyInt 0)) \<and>
   subscript token_degenerate ''market_cap'' = Inr (JNum (PyInt 0)) \<and>
   subscript token_degenerate ''ath'' = Inr (JNum (PyFloat (Finite (- 1)))) \<and>
   subscript token_degenerate ''name'' = Inr (JStr ''Beta'') \<and>
   py_get token_degenerate price_change_key JNull = Inr JNull \<and>
   subscript global_zero_volume ''total_volume'' = Inr (JObj [(''usd'', JNum (PyInt 0))]) \<and>
   subscript (JObj [(''usd'', JNum (PyInt 0))]) ''usd'' = Inr (JNum (PyInt 0)) \<and>
   in_float_range (PyInt 0) \<and> in_float_range (PyFloat (Finite (- 1))) \<and>
   calculate_metrics unrounded token_degenerate global_zero_volume =
     Inr \<lparr>token = JStr ''Beta'', pvr = Finite 0, rvol = Finite 0, momentum = Finite 0,
          vsi = Finite 0\<rparr> \<and>
   calculate_additional_metrics unrounded token_degenerate = Inr (Finite 1, JNum (PyInt 0), Finite 1)"
proof -
  have h: "subscript token_degenerate ''current_price'' = Inr (JNum (PyInt 0))"
    "subscript token_degenerate ''total_volume'' = Inr (JNum (PyInt 0))"
    "subscript token_degenerate ''market_cap'' = Inr (JNum (PyInt 0))"
    "subscript token_degenerate ''ath'' = Inr (JNum (PyFloat (Finite (- 1))))"
    "subscript token_degenerate ''name'' = Inr (JStr ''Beta'')"
    "py_get token_degenerate price_change_key JNull = Inr JNull"
    "subscript global_zero_volume ''total_volume'' = Inr (JObj [(''usd'', JNum (PyInt 0))])"
    "subscript (JObj [(''usd'', JNum (PyInt 0))]) ''usd'' = Inr (JNum (PyInt 0))"
    by code_simp+
  have r: "in_float_range (PyInt 0)" "in_float_range (PyFloat (Finite (- 1)))"
    by (simp_all add: max_float_def)
  have v: "calculate_metrics unrounded token_degenerate global_zero_volume =
     Inr \<lparr>token = JStr ''Beta'', pvr = Finite 0, rvol = Finite 0, momentum = Finite 0,
          vsi = Finite 0\<rparr>"
    "calculate_additional_metrics unrounded token_degenerate = Inr (Finite 1, JNum (PyInt 0), Finite 1)"
    by code_simp+
  have n: "JNull = JNull \<or> (\<exists>c. JNull = JNum c \<and> in_float_range c)"
    by simp
  from calculate_metrics_guards [OF unrounded_ok h(1) r(1) h(2) r(1) h(3) r(1) h(4) r(2) h(5,6) n
      h(7,8) r(1)] unrounded_ok h r v
  show ?thesis
    by simp
qed

text \<open>
  What \<^verbatim>\<open>token.get(key, 0)\<close> gives: the value stored under the key, whatever it is, and
  0 only when the key is absent.
\<close>

lemma calculate_additional_metrics_price_change:
  assumes "calculate_additional_metrics rnd (JObj kvs) = Inr (gains, change, ratio)"
  shows "change = (case dict_get kvs price_change_key of None \<Rightarrow> JNum (PyInt 0) | Some v \<Rightarrow> v)"
  using assms
  by (auto simp: calculate_additional_metrics_def py_get_def bind_def split: sum.splits)

text \<open>
  C7: the claim wants \<open>price_change_7d = 0\<close> for a null field. On a token whose field is
  null, \<^verbatim>\<open>calculate_additional_metrics\<close> returns \<^verbatim>\<open>None\<close> there, while
  \<^verbatim>\<open>calculate_metrics\<close> (line 74, \<^verbatim>\<open>or 0\<close>) reads the same field as 0.
\<close>

theorem calculate_additional_metrics_null_change:
  "calculate_additional_metrics unrounded token_null_change = Inr (Finite 2, JNull, Finite 8) \<and>
   map_sum id momentum (calculate_metrics unrounded token_null_change global_plain) = Inr (Finite 0)"
  by code_simp

section \<open>Claims about the selection across the four rankings\<close>

text \<open>
  C5: for any four sets of names, the three sets computed on lines 432 to 467 are pairwise
  disjoint, and their union lies within the union of the four sets.
\<close>

theorem intersection_partitions_disjoint:
  "tokens_in_all_four gains change mc_vol score \<inter> tokens_in_three gains change mc_vol score = {} \<and>
   tokens_in_all_four gains change mc_vol score \<inter> tokens_in_two gains change mc_vol score = {} \<and>
   tokens_in_three gains change mc_vol score \<inter> tokens_in_two gains change mc_vol score = {} \<and>
   tokens_in_all_four gains change mc_vol score \<union> tokens_in_three gains change mc_vol score
     \<union> tokens_in_two gains change mc_vol score
     \<subseteq> gains \<union> change \<union> mc_vol \<union> score"
  unfolding tokens_in_two_def tokens_in_three_def tokens_in_all_four_def
  by blast

section \<open>Facts about the requests\<close>

lemma requests_get_Cons:
  "responses w = r # rs \<Longrightarrow>
   requests_get url params w = (Inr r, w\<lparr>responses := rs, trace := trace w @ [Http_get url params]\<rparr>)"
  by (simp add: requests_get_def emit_def)

lemma requests_get_Nil:
  "responses w = [] \<Longrightarrow>
   requests_get url params w = (Inl ConnectionError, w\<lparr>trace := trace w @ [Http_get url params]\<rparr>)"
  by (simp add: requests_get_def emit_def)

lemma fetch_with_rate_limit_cases:
  assumes "responses w = first # rest"
  shows "fetch_with_rate_limit url params w =
     (if status_code first = 429 then
        (case rest of
           [] \<Rightarrow>
             (Inl ConnectionError,
              w\<lparr>responses := [],
                trace := trace w @ [Http_get url params,
                  Print [S ''Rate limit exceeded, sleeping for 60 seconds...''], Sleep 60,
                  Http_get url params]\<rparr>)
         | second # rest' \<Rightarrow>
             if status_code second = 200 then
               (response_json second,
                w\<lparr>responses := rest',
                  trace := trace w @ [Http_get url params,
                    Print [S ''Rate limit exceeded, sleeping for 60 seconds...''], Sleep 60,
                    Http_get url params]\<rparr>)
             else
               (Inr JNull,
                w\<lparr>responses := rest',
                  trace := trace w @ [Http_get url params,
                    Print [S ''Rate limit exceeded, sleeping for 60 seconds...''], Sleep 60,
                    Http_get url params,
                    Print [S ''Error fetching data: '', N (status_code second)]]\<rparr>))
      else if status_code first = 200 then
        (response_json first, w\<lparr>responses := rest, trace := trace w @ [Http_get url params]\<rparr>)
      else
        (Inr JNull,
         w\<lparr>responses := rest,
           trace := trace w @ [Http_get url params,
             Print [S ''Error fetching data: '', N (status_code first)]]\<rparr>))"
proof (cases "status_code first = 429")
  case False
  then show ?thesis
    by (simp add: fetch_with_rate_limit_def requests_get_Cons [OF assms] emit_def)
next
  case True
  show ?thesis
  proof (cases rest)
    case Nil
    with True show ?thesis
      by (simp add: fetch_with_rate_limit_def requests_get_Cons [OF assms] requests_get_Nil emit_def)
  next
    case (Cons second rest')
    with True show ?thesis
      by (simp add: fetch_with_rate_limit_def requests_get_Cons [OF assms] requests_get_Cons emit_def)
  qed
qed

lemma requests_get_trace:
  "requests_get url params w = (r, w') \<Longrightarrow> trace w' = trace w @ [Http_get url params]"
  by (auto simp: requests_get_def emit_def Let_def split: list.splits)

lemma fetch_with_rate_limit_trace:
  assumes "fetch_with_rate_limit url params w = (r, w')"
  shows "\<exists>evs. trace w' = trace w @ evs \<and>
           (\<forall>e \<in> set evs. e = Http_get url params \<or> (\<not> token_work e))"
proof (cases "responses w")
  case Nil
  with assms show ?thesis
    by (auto simp: fetch_with_rate_limit_def requests_get_Nil)
next
  case (Cons first rest)
  from assms show ?thesis
    unfolding fetch_with_rate_limit_cases [OF Cons]
    by (cases rest) (auto split: if_splits)
qed

lemma get_global_data_trace:
  assumes "get_global_data w = (r, w')"
  shows "\<exists>evs. trace w' = trace w @ evs \<and> filter token_work evs = []"
proof -
  obtain r1 w1 where f: "fetch_with_rate_limit global_url JNull w = (r1, w1)"
    by (cases "fetch_with_rate_limit global_url JNull w")
  from fetch_with_rate_limit_trace [OF f] obtain evs
    where evs: "trace w1 = trace w @ evs"
      and q: "\<forall>e \<in> set evs. e = Http_get global_url JNull \<or> (\<not> token_work e)"
    by blast
  have g: "\<not> token_work (Http_get global_url JNull)"
    by (simp add: global_url_def markets_url_def)
  from q g have nq: "filter token_work evs = []"
    by (auto simp: filter_empty_conv)
  from assms f have "trace w' = trace w1 \<or> (\<exists>ps. trace w' = trace w1 @ [Print ps])"
    by (auto simp: get_global_data_def emit_def split: sum.splits if_splits bool.splits)
  then show ?thesis
  proof
    assume "trace w' = trace w1"
    with evs nq show ?thesis by auto
  next
    assume "\<exists>ps. trace w' = trace w1 @ [Print ps]"
    then obtain ps where "trace w' = trace w @ (evs @ [Print ps])"
      using evs by auto
    moreover have "filter token_work (evs @ [Print ps]) = []"
      using nq by simp
    ultimately show ?thesis by blast
  qed
qed

section \<open>Claims about the requests and the tier\<close>

text \<open>
  C8: when the server answers at all, \<^verbatim>\<open>fetch_with_rate_limit\<close> sends a second request
  exactly when the first answer has status 429, and never a third; it sleeps 60 before the
  second request and not otherwise; a first status other than 200 and 429, and a status
  other than 200 on the retry, give \<^verbatim>\<open>None\<close> and no exception; a status 200 gives the
  parsed body.
\<close>

theorem fetch_with_rate_limit_retry:
  assumes "responses w = first # rest"
    and "fetch_with_rate_limit url params w = (result, w')"
  shows "filter is_request (new_events w w') =
           (if status_code first = 429 then [Http_get url params, Http_get url params]
            else [Http_get url params]) \<and>
         filter is_sleep (new_events w w') = (if status_code first = 429 then [Sleep 60] else []) \<and>
         (status_code first = 429 \<longrightarrow>
            take 4 (new_events w w') =
              [Http_get url params, rate_limit_notice, Sleep 60, Http_get url params]) \<and>
         (status_code first \<noteq> 429 \<longrightarrow> status_code first \<noteq> 200 \<longrightarrow> result = Inr JNull) \<and>
         (status_code first = 429 \<longrightarrow>
            (\<forall>second rest'. rest = second # rest' \<longrightarrow> status_code second \<noteq> 200 \<longrightarrow>
               result = Inr JNull)) \<and>
         (status_code first = 200 \<longrightarrow> result = response_json first) \<and>
         (status_code first = 429 \<longrightarrow>
            (\<forall>second rest'. rest = second # rest' \<longrightarrow> status_code second = 200 \<longrightarrow>
               result = response_json second))"
  using assms(2) unfolding fetch_with_rate_limit_cases [OF assms(1)]
  by (cases rest) (auto simp: new_events_def rate_limit_notice_def split: if_splits)

theorem fetch_with_rate_limit_retry_witness:
  "responses world_limited_twice =
     \<lparr>status_code = 429, body = None\<rparr> #
     [\<lparr>status_code = 429, body = None\<rparr>,
      \<lparr>status_code = 200, body = Some (JObj [(''data'', global_plain)])\<rparr>] \<and>
   fst (fetch_with_rate_limit global_url JNull world_limited_twice) = Inr JNull \<and>
   responses (snd (fetch_with_rate_limit global_url JNull world_limited_twice)) =
     [\<lparr>status_code = 200, body = Some (JObj [(''data'', global_plain)])\<rparr>] \<and>
   filter is_request (new_events world_limited_twice
       (snd (fetch_with_rate_limit global_url JNull world_limited_twice))) =
     [Http_get global_url JNull, Http_get global_url JNull] \<and>
   filter is_sleep (new_events world_limited_twice
       (snd (fetch_with_rate_limit global_url JNull world_limited_twice))) = [Sleep 60]"
proof -
  have r: "responses world_limited_twice =
     \<lparr>status_code = 429, body = None\<rparr> #
     [\<lparr>status_code = 429, body = None\<rparr>,
      \<lparr>status_code = 200, body = Some (JObj [(''data'', global_plain)])\<rparr>]"
    by (simp add: world_limited_twice_def)
  have rest: "responses (snd (fetch_with_rate_limit global_url JNull world_limited_twice)) =
     [\<lparr>status_code = 200, body = Some (JObj [(''data'', global_plain)])\<rparr>]"
    by (simp add: fetch_with_rate_limit_cases [OF r])
  from fetch_with_rate_limit_retry [OF r surjective_pairing] r rest
  show ?thesis
    by simp
qed

text \<open>
  C9: when \<^verbatim>\<open>get_global_data\<close> returns \<^verbatim>\<open>None\<close> (or any other false value),
  \<^verbatim>\<open>rank_tier\<close> writes the failure message and returns; between the heading and that
  message no page of tokens is requested and none of \<^verbatim>\<open>calculate_metrics\<close>,
  \<^verbatim>\<open>rank_tokens\<close>, \<^verbatim>\<open>calculate_additional_metrics\<close> is called.
\<close>

theorem rank_tier_global_unavailable:
  assumes "get_global_data (emit (tier_heading tier_number) w) = (Inr global_data, w1)"
    and "\<not> truthy global_data"
  shows "rank_tier srt mu rnd tier_number w = (Inr (), emit failed_global w1) \<and>
         (\<exists>evs. new_events w (emit failed_global w1) = tier_heading tier_number # evs @ [failed_global] \<and>
                filter token_work evs = [])"
proof -
  have run: "rank_tier srt mu rnd tier_number w = (Inr (), emit failed_global w1)"
    by (simp add: rank_tier_def assms)
  from get_global_data_trace [OF assms(1)] obtain evs
    where evs: "trace w1 = trace (emit (tier_heading tier_number) w) @ evs"
      and q: "filter token_work evs = []"
    by blast
  have "new_events w (emit failed_global w1) = tier_heading tier_number # evs @ [failed_global]"
    by (simp add: new_events_def emit_def evs)
  with run q show ?thesis
    by blast
qed

theorem rank_tier_global_unavailable_witness:
  "get_global_data (emit (tier_heading 1) world_server_error) =
     (Inr JNull,
      \<lparr>responses = [\<lparr>status_code = 200, body = Some (JArr [token_plain])\<rparr>],
       trace = [tier_heading 1, Http_get global_url JNull,
         Print [S ''Error fetching data: '', N 500],
         Print [S ''Unexpected response structure for global data:'', J JNull]]\<rparr>) \<and>
   \<not> truthy JNull \<and>
   rank_tier insertion_argsort unrounded_mean unrounded 1 world_server_error =
     (Inr (),
      \<lparr>responses = [\<lparr>status_code = 200, body = Some (JArr [token_plain])\<rparr>],
       trace = [tier_heading 1, Http_get global_url JNull,
         Print [S ''Error fetching data: '', N 500],
         Print [S ''Unexpected response structure for global data:'', J JNull],
         failed_global]\<rparr>)"
proof -
  have g: "get_global_data (emit (tier_heading 1) world_server_error) =
     (Inr JNull,
      \<lparr>responses = [\<lparr>status_code = 200, body = Some (JArr [token_plain])\<rparr>],
       trace = [tier_heading 1, Http_get global_url JNull,
         Print [S ''Error fetching data: '', N 500],
         Print [S ''Unexpected response structure for global data:'', J JNull]]\<rparr>)"
    by code_simp
  have t: "\<not> truthy JNull"
    by simp
  from rank_tier_global_unavailable [OF g t, of insertion_argsort unrounded_mean unrounded]
  have "rank_tier insertion_argsort unrounded_mean unrounded 1 world_server_error =
     (Inr (),
      \<lparr>responses = [\<lparr>status_code = 200, body = Some (JArr [token_plain])\<rparr>],
       trace = [tier_heading 1, Http_get global_url JNull,
         Print [S ''Error fetching data: '', N 500],
         Print [S ''Unexpected response structure for global data:'', J JNull],
         failed_global]\<rparr>)"
    by (simp add: emit_def)
  with g t show ?thesis
    by (intro conjI)
qed

end
